theory Spec2Isabelle
  imports Main "HOL-Library.Sublist" "HOL-Library.Char_ord" "HOL-Library.List_Lexorder"
    "HOL-Library.Product_Lexorder"
begin

section \<open>Go values used throughout\<close>

text \<open>
  Go strings are modelled as \<open>string\<close> (lists of 8-bit characters); all paths are Unix
  paths, so \<open>filepath.ToSlash\<close> and \<open>filepath.FromSlash\<close> are the identity and the
  separator is \<open>/\<close>. Go error values are the datatype below: the sentinel errors of the
  repository, the errors of the standard library that the code tests for, and the two ways the
  code builds errors (\<open>fmt.Errorf\<close> with and without \<open>%w\<close>).
\<close>

datatype error =
    ErrNotExist
  | ErrOS string
  | PathError string string error
  | ContextCanceled
  | DeadlineExceeded
  | ExitError "string list" string int string
  | ErrBadPattern
  | ErrTargetNotFound
  | ErrNoPatterns
  | ErrUnsafePattern
  | ErrAcquireTimeout
  | ErrForceRequiresName
  | ErrInvalidTrackMode
  | ErrNoAIToolConfigured
  | ProcessExit int
  | ErrorString string
  | Wrapped string error
  | Joined "error list"

text \<open>\<open>errors.Is\<close>: walk the \<open>Unwrap\<close> tree. \<open>Wrapped\<close> is \<open>fmt.Errorf("...%w...")\<close>,
  \<open>PathError\<close> is \<open>*fs.PathError\<close>; both unwrap to their last argument. \<open>Joined\<close> is
  \<open>errors.Join\<close>, which unwraps to all its members.\<close>

fun errors_Is :: "error \<Rightarrow> error \<Rightarrow> bool" where
  "errors_Is (Wrapped msg e) t = (Wrapped msg e = t \<or> errors_Is e t)"
| "errors_Is (PathError op p e) t = (PathError op p e = t \<or> errors_Is e t)"
| "errors_Is (Joined es) t = (Joined es = t \<or> list_ex (\<lambda>e. errors_Is e t) es)"
| "errors_Is e t = (e = t)"

subsection \<open>Package strings\<close>

fun HasPrefix :: "string \<Rightarrow> string \<Rightarrow> bool" where
  "HasPrefix s [] = True"
| "HasPrefix [] (p # ps) = False"
| "HasPrefix (c # cs) (p # ps) = (c = p \<and> HasPrefix cs ps)"

definition HasSuffix :: "string \<Rightarrow> string \<Rightarrow> bool" where
  "HasSuffix s suf = HasPrefix (rev s) (rev suf)"

fun Contains :: "string \<Rightarrow> string \<Rightarrow> bool" where
  "Contains [] sub = (sub = [])"
| "Contains (c # cs) sub = (HasPrefix (c # cs) sub \<or> Contains cs sub)"

definition TrimPrefix :: "string \<Rightarrow> string \<Rightarrow> string" where
  "TrimPrefix s p = (if HasPrefix s p then drop (length p) s else s)"

definition TrimSuffix :: "string \<Rightarrow> string \<Rightarrow> string" where
  "TrimSuffix s suf = (if HasSuffix s suf then take (length s - length suf) s else s)"

text \<open>\<open>strings.CutPrefix\<close> returns the rest and whether the prefix was there.\<close>

definition CutPrefix :: "string \<Rightarrow> string \<Rightarrow> string option" where
  "CutPrefix s p = (if HasPrefix s p then Some (drop (length p) s) else None)"

text \<open>The white space of \<open>strings.TrimSpace\<close> that fits in one byte: tab, line feed,
  vertical tab, form feed, carriage return and space.\<close>

definition isSpace :: "char \<Rightarrow> bool" where
  "isSpace c = (c \<in> set [CHR 0x09, CHR 0x0A, CHR 0x0B, CHR 0x0C, CHR 0x0D, CHR '' ''])"

definition TrimSpace :: "string \<Rightarrow> string" where
  "TrimSpace s = rev (dropWhile isSpace (rev (dropWhile isSpace s)))"

text \<open>\<open>strings.Split(s, sep)\<close> for a one-character separator: never the empty list.\<close>

fun Split :: "string \<Rightarrow> char \<Rightarrow> string list" where
  "Split [] sep = [[]]"
| "Split (c # cs) sep =
     (if c = sep then [] # Split cs sep
      else (case Split cs sep of [] \<Rightarrow> [[c]] | x # xs \<Rightarrow> (c # x) # xs))"

fun strings_Join :: "string list \<Rightarrow> string \<Rightarrow> string" where
  "strings_Join [] sep = []"
| "strings_Join [x] sep = x"
| "strings_Join (x # y # ys) sep = x @ sep @ strings_Join (y # ys) sep"

subsection \<open>Package path/filepath (Unix)\<close>

definition IsAbs :: "string \<Rightarrow> bool" where
  "IsAbs p = HasPrefix p ''/''"

text \<open>
  \<open>filepath.Clean\<close> is purely lexical. Its byte-level loop is the following walk over the
  slash-separated elements: empty elements and \<open>.\<close> are dropped; \<open>..\<close> removes the element
  before it when there is one that is not itself \<open>..\<close>, is dropped right after the root, and is
  kept otherwise. The stack holds the elements kept so far, last one first.
\<close>

fun clean_elem :: "bool \<Rightarrow> string list \<Rightarrow> string \<Rightarrow> string list" where
  "clean_elem rooted st e =
     (if e = [] \<or> e = ''.'' then st
      else if e = ''..'' then
        (case st of
           [] \<Rightarrow> (if rooted then [] else [''..''])
         | t # ts \<Rightarrow> (if t = ''..'' then ''..'' # t # ts else ts))
      else e # st)"

definition Clean :: "string \<Rightarrow> string" where
  "Clean path =
     (if path = [] then ''.''
      else
        let rooted = HasPrefix path ''/'';
            st = foldl (clean_elem rooted) [] (Split path CHR ''/'');
            out = (if rooted then ''/'' else []) @ strings_Join (rev st) ''/''
        in if out = [] then ''.'' else out)"

text \<open>\<open>filepath.Join\<close>: leading empty elements are ignored, the rest is joined with
  slashes and cleaned; with no non-empty element the result is the empty string.\<close>

definition Join :: "string list \<Rightarrow> string" where
  "Join elem =
     (case dropWhile (\<lambda>e. e = []) elem of
        [] \<Rightarrow> []
      | e # es \<Rightarrow> Clean (strings_Join (e # es) ''/''))"

text \<open>\<open>filepath.Dir\<close>: everything up to the last slash, cleaned.\<close>

definition Dir :: "string \<Rightarrow> string" where
  "Dir path = Clean (rev (dropWhile (\<lambda>c. c \<noteq> CHR ''/'') (rev path)))"

text \<open>\<open>filepath.Base\<close>: the last element, after trailing slashes are removed.\<close>

definition Base :: "string \<Rightarrow> string" where
  "Base path =
     (if path = [] then ''.''
      else
        let p = rev (dropWhile (\<lambda>c. c = CHR ''/'') (rev path));
            b = rev (takeWhile (\<lambda>c. c \<noteq> CHR ''/'') (rev p))
        in if b = [] then ''/'' else b)"

section \<open>The world outside the program\<close>

text \<open>
  Everything the code reads from outside is a field of \<open>world\<close>: the result each system or
  library call would give. A read-only operation sees one world for its whole run.
  \<^item> \<open>ctx_Err\<close> is \<open>ctx.Err()\<close>, \<open>None\<close> while the context is live;
  \<^item> \<open>Stat\<close> gives \<open>IsDir\<close> of the file information; \<open>ReadDir\<close> gives name and \<open>IsDir\<close>
    of each entry, sorted by name as \<open>os.ReadDir\<close> does;
  \<^item> \<open>git_process\<close> is what running the \<open>git\<close> binary in a directory with arguments does;
  \<^item> \<open>Glob root\<close> is \<open>doublestar.Glob(os.DirFS(root), _)\<close>, \<open>StatFS root\<close> is
    \<open>fs.Stat(os.DirFS(root), _)\<close>, \<open>Match\<close> is \<open>doublestar.Match\<close>;
  \<^item> \<open>copyFile_result src dst\<close> is the error, if any, of the five system calls that make up
    \<open>copyFile\<close> (open, stat, mkdir, create, copy), each of which it returns unchanged.
\<close>

datatype proc =
    Exited string string int
  | Interrupted error
  | NotStarted error

record world =
  ctx_Err :: "error option"
  Getwd :: "error + string"
  EvalSymlinks :: "string \<Rightarrow> error + string"
  Stat :: "string \<Rightarrow> error + bool"
  ReadDir :: "string \<Rightarrow> error + (string \<times> bool) list"
  ReadFile :: "string \<Rightarrow> error + string"
  UserHomeDir :: "error + string"
  LookupEnv :: "string \<Rightarrow> string option"
  git_process :: "string \<Rightarrow> string list \<Rightarrow> proc"
  Glob :: "string \<Rightarrow> string \<Rightarrow> error + string list"
  Match :: "string \<Rightarrow> string \<Rightarrow> error + bool"
  StatFS :: "string \<Rightarrow> string \<Rightarrow> error + bool"
  copyFile_result :: "string \<Rightarrow> string \<Rightarrow> error option"

section \<open>Package copy\<close>

record Options =
  PreservePaths :: bool
  DryRun :: bool

record Result =
  CopiedFiles :: "string list"

definition isSafePattern :: "string \<Rightarrow> bool" where
  "isSafePattern pattern =
     (if HasPrefix pattern ''/'' then False
      else
        let p = pattern
        in if HasPrefix p ''../'' \<or> p = ''..'' \<or> Contains p ''/../'' \<or> HasSuffix p ''/..''
           then False else True)"

fun normalizePatterns :: "string list \<Rightarrow> string list" where
  "normalizePatterns [] = []"
| "normalizePatterns (p # ps) =
     (let q = TrimSpace p
      in if q = [] then normalizePatterns ps else q # normalizePatterns ps)"

fun excluded :: "world \<Rightarrow> string \<Rightarrow> string list \<Rightarrow> bool" where
  "excluded w path [] = False"
| "excluded w path (p # ps) =
     (if \<not> isSafePattern p then excluded w path ps
      else (case Match w p path of
              Inr ok \<Rightarrow> (if ok then True else excluded w path ps)
            | Inl err \<Rightarrow> excluded w path ps))"

definition appendUnique :: "string list \<Rightarrow> string \<Rightarrow> string list" where
  "appendUnique dst v = (if v \<in> set dst then dst else dst @ [v])"

text \<open>The inner loop of \<open>CopyFiles\<close>, over the matches of one pattern; \<open>copied\<close> is the
  slice built so far.\<close>

fun CopyFiles_matches ::
  "world \<Rightarrow> string \<Rightarrow> string \<Rightarrow> string list \<Rightarrow> Options \<Rightarrow> string list \<Rightarrow> string list
     \<Rightarrow> error + string list" where
  "CopyFiles_matches w srcRoot dstRoot excludes opts [] copied = Inr copied"
| "CopyFiles_matches w srcRoot dstRoot excludes opts (m # ms) copied =
     (case ctx_Err w of
        Some err \<Rightarrow> Inl err
      | None \<Rightarrow>
          let rel = TrimPrefix m ''./''
          in if rel = [] then CopyFiles_matches w srcRoot dstRoot excludes opts ms copied
             else if excluded w rel excludes
               then CopyFiles_matches w srcRoot dstRoot excludes opts ms copied
             else (case StatFS w srcRoot m of
                     Inl err \<Rightarrow> CopyFiles_matches w srcRoot dstRoot excludes opts ms copied
                   | Inr isDir \<Rightarrow>
                       if isDir then CopyFiles_matches w srcRoot dstRoot excludes opts ms copied
                       else if DryRun opts
                         then CopyFiles_matches w srcRoot dstRoot excludes opts ms
                                (appendUnique copied rel)
                       else
                         let srcPath = Join [srcRoot, rel];
                             dstPath = (if PreservePaths opts then Join [dstRoot, rel]
                                        else Join [dstRoot, Base rel])
                         in (case copyFile_result w srcPath dstPath of
                               Some err \<Rightarrow> Inl err
                             | None \<Rightarrow>
                                 CopyFiles_matches w srcRoot dstRoot excludes opts ms
                                   (appendUnique copied rel))))"

text \<open>The outer loop of \<open>CopyFiles\<close>, over the include patterns.\<close>

fun CopyFiles_patterns ::
  "world \<Rightarrow> string \<Rightarrow> string \<Rightarrow> string list \<Rightarrow> Options \<Rightarrow> string list \<Rightarrow> string list
     \<Rightarrow> error + string list" where
  "CopyFiles_patterns w srcRoot dstRoot excludes opts [] copied = Inr copied"
| "CopyFiles_patterns w srcRoot dstRoot excludes opts (raw # ps) copied =
     (let rawPattern = TrimSpace raw
      in if rawPattern = [] then CopyFiles_patterns w srcRoot dstRoot excludes opts ps copied
         else if \<not> isSafePattern rawPattern then Inl (Wrapped rawPattern ErrUnsafePattern)
         else (case Glob w srcRoot rawPattern of
                 Inl err \<Rightarrow> Inl err
               | Inr matches \<Rightarrow>
                   (case CopyFiles_matches w srcRoot dstRoot excludes opts matches copied of
                      Inl err \<Rightarrow> Inl err
                    | Inr copied' \<Rightarrow>
                        CopyFiles_patterns w srcRoot dstRoot excludes opts ps copied')))"

definition CopyFiles ::
  "world \<Rightarrow> string \<Rightarrow> string \<Rightarrow> string list \<Rightarrow> string list \<Rightarrow> Options \<Rightarrow> error + Result" where
  "CopyFiles w srcRoot dstRoot includePatterns excludePatterns opts =
     (if length includePatterns = 0 then Inl ErrNoPatterns
      else
        let excludes = normalizePatterns excludePatterns
        in (case CopyFiles_patterns w srcRoot dstRoot excludes opts includePatterns [] of
              Inl err \<Rightarrow> Inl err
            | Inr copied \<Rightarrow> Inr \<lparr>CopiedFiles = copied\<rparr>))"

text \<open>The rule of the specification for an unsafe pattern, in its own words: the pattern is
  absolute, or one of its slash-separated elements is \<open>..\<close>.\<close>

definition has_dotdot_element :: "string \<Rightarrow> bool" where
  "has_dotdot_element p = (''..'' \<in> set (Split p CHR ''/''))"

definition unsafe_pattern :: "string \<Rightarrow> bool" where
  "unsafe_pattern p = (IsAbs p \<or> has_dotdot_element p)"


section \<open>Package gitcmd\<close>

record git_Result =
  Stdout :: string
  Stderr :: string
  ExitCode :: int

text \<open>\<open>Git.Run\<close>: the captured streams lose one trailing newline; a non-zero exit becomes an
  \<open>ExitError\<close> (arguments, directory, exit code, standard error), a context error or any other
  error of \<open>cmd.Run\<close> is returned as it is.\<close>

definition git_Run :: "world \<Rightarrow> string \<Rightarrow> string list \<Rightarrow> git_Result \<times> error option" where
  "git_Run w dir args =
     (case git_process w dir args of
        Exited out errout code \<Rightarrow>
          let result = \<lparr>Stdout = TrimSuffix out ''\<newline>'', Stderr = TrimSuffix errout ''\<newline>'',
                         ExitCode = 0\<rparr>
          in if code = 0 then (result, None)
             else (result\<lparr>ExitCode := code\<rparr>, Some (ExitError args dir code (Stderr result)))
      | Interrupted err \<Rightarrow> (\<lparr>Stdout = [], Stderr = [], ExitCode = 0\<rparr>, Some err)
      | NotStarted err \<Rightarrow> (\<lparr>Stdout = [], Stderr = [], ExitCode = 0\<rparr>, Some err))"

section \<open>Package config\<close>

record Resolver =
  MainRoot :: string
  Env :: "(string \<Rightarrow> string option) option"

definition gtrconfigPath :: "Resolver \<Rightarrow> string" where
  "gtrconfigPath r = Join [MainRoot r, ''.gtrconfig'']"

definition lookupEnv :: "Resolver \<Rightarrow> world \<Rightarrow> string \<Rightarrow> string option" where
  "lookupEnv r w key = (case Env r of Some env \<Rightarrow> env key | None \<Rightarrow> LookupEnv w key)"

text \<open>\<open>errors.As(err, &ee)\<close> for \<open>*gitcmd.ExitError\<close>: the exit code of the first
  \<open>ExitError\<close> in the chain.\<close>

fun as_ExitError :: "error \<Rightarrow> int option" where
  "as_ExitError (ExitError args dir code errout) = Some code"
| "as_ExitError (Wrapped msg e) = as_ExitError e"
| "as_ExitError (PathError op p e) = as_ExitError e"
| "as_ExitError e = None"

definition ignoreMissingKey :: "error \<Rightarrow> error option" where
  "ignoreMissingKey err =
     (case as_ExitError err of
        Some code \<Rightarrow> (if code = 1 then None else Some err)
      | None \<Rightarrow> Some err)"

definition get :: "Resolver \<Rightarrow> world \<Rightarrow> string list \<Rightarrow> error + string" where
  "get r w args =
     (case git_Run w (MainRoot r) (''config'' # args) of
        (res, Some err) \<Rightarrow> (case ignoreMissingKey err of None \<Rightarrow> Inr [] | Some e \<Rightarrow> Inl e)
      | (res, None) \<Rightarrow> Inr (TrimSpace (Stdout res)))"

definition getAll :: "Resolver \<Rightarrow> world \<Rightarrow> string list \<Rightarrow> error + string list" where
  "getAll r w args =
     (case git_Run w (MainRoot r) (''config'' # args) of
        (res, Some err) \<Rightarrow> (case ignoreMissingKey err of None \<Rightarrow> Inr [] | Some e \<Rightarrow> Inl e)
      | (res, None) \<Rightarrow>
          if TrimSpace (Stdout res) = [] then Inr []
          else Inr (Split (TrimSuffix (Stdout res) ''\<newline>'') CHR 0x0A))"

definition getFile :: "Resolver \<Rightarrow> world \<Rightarrow> string \<Rightarrow> string \<Rightarrow> error + string" where
  "getFile r w file key =
     (case Stat w file of
        Inl err \<Rightarrow> (if errors_Is err ErrNotExist then Inr [] else Inl err)
      | Inr info \<Rightarrow>
          (case git_Run w (MainRoot r) [''config'', ''-f'', file, ''--get'', key] of
             (res, Some err) \<Rightarrow> (case ignoreMissingKey err of None \<Rightarrow> Inr [] | Some e \<Rightarrow> Inl e)
           | (res, None) \<Rightarrow> Inr (TrimSpace (Stdout res))))"

definition getAllFile :: "Resolver \<Rightarrow> world \<Rightarrow> string \<Rightarrow> string \<Rightarrow> error + string list" where
  "getAllFile r w file key =
     (case Stat w file of
        Inl err \<Rightarrow> (if errors_Is err ErrNotExist then Inr [] else Inl err)
      | Inr info \<Rightarrow>
          (case git_Run w (MainRoot r) [''config'', ''-f'', file, ''--get-all'', key] of
             (res, Some err) \<Rightarrow> (case ignoreMissingKey err of None \<Rightarrow> Inr [] | Some e \<Rightarrow> Inl e)
           | (res, None) \<Rightarrow>
               if TrimSpace (Stdout res) = [] then Inr []
               else Inr (Split (TrimSuffix (Stdout res) ''\<newline>'') CHR 0x0A)))"

definition Default ::
  "Resolver \<Rightarrow> world \<Rightarrow> string \<Rightarrow> string \<Rightarrow> string \<Rightarrow> string \<Rightarrow> error + string" where
  "Default r w key envName fallback fileKey =
     (case get r w [''--local'', ''--get'', key] of
        Inl err \<Rightarrow> Inl (Wrapped (''git config --local --get '' @ key) err)
      | Inr v \<Rightarrow>
          if v \<noteq> [] then Inr v
          else
            (case (if fileKey \<noteq> [] then getFile r w (gtrconfigPath r) fileKey else Inr []) of
               Inl err \<Rightarrow> Inl (Wrapped (''read .gtrconfig '' @ fileKey) err)
             | Inr fv \<Rightarrow>
                 if fv \<noteq> [] then Inr fv
                 else
                   (case get r w [''--global'', ''--get'', key] of
                      Inl err \<Rightarrow> Inl (Wrapped (''git config --global --get '' @ key) err)
                    | Inr gv \<Rightarrow>
                        if gv \<noteq> [] then Inr gv
                        else
                          (case get r w [''--system'', ''--get'', key] of
                             Inl err \<Rightarrow> Inl (Wrapped (''git config --system --get '' @ key) err)
                           | Inr sv \<Rightarrow>
                               if sv \<noteq> [] then Inr sv
                               else
                                 (case (if envName \<noteq> [] then lookupEnv r w envName else None) of
                                    Some ev \<Rightarrow> (if ev \<noteq> [] then Inr ev else Inr fallback)
                                  | None \<Rightarrow> Inr fallback)))))"

text \<open>The closure \<open>appendUnique\<close> of \<open>Resolver.All\<close>, on its two captured variables: the set
  \<open>seen\<close> and the slice \<open>out\<close>.\<close>

fun All_appendUnique ::
  "string set \<times> string list \<Rightarrow> string list \<Rightarrow> string set \<times> string list" where
  "All_appendUnique (seen, out) [] = (seen, out)"
| "All_appendUnique (seen, out) (v # vs) =
     (if v = [] then All_appendUnique (seen, out) vs
      else if v \<in> seen then All_appendUnique (seen, out) vs
      else All_appendUnique (insert v seen, out @ [v]) vs)"

definition All :: "Resolver \<Rightarrow> world \<Rightarrow> string \<Rightarrow> string \<Rightarrow> error + string list" where
  "All r w key fileKey =
     (case getAll r w [''--local'', ''--get-all'', key] of
        Inl err \<Rightarrow> Inl (Wrapped (''git config --local --get-all '' @ key) err)
      | Inr localVals \<Rightarrow>
          let st1 = All_appendUnique ({}, []) localVals
          in (case (if fileKey \<noteq> [] then getAllFile r w (gtrconfigPath r) fileKey else Inr []) of
                Inl err \<Rightarrow> Inl (Wrapped (''read .gtrconfig '' @ fileKey) err)
              | Inr fileVals \<Rightarrow>
                  let st2 = All_appendUnique st1 fileVals
                  in (case getAll r w [''--global'', ''--get-all'', key] of
                        Inl err \<Rightarrow> Inl (Wrapped (''git config --global --get-all '' @ key) err)
                      | Inr globalVals \<Rightarrow>
                          let st3 = All_appendUnique st2 globalVals
                          in (case getAll r w [''--system'', ''--get-all'', key] of
                                Inl err \<Rightarrow>
                                  Inl (Wrapped (''git config --system --get-all '' @ key) err)
                              | Inr systemVals \<Rightarrow>
                                  Inr (snd (All_appendUnique st3 systemVals))))))"







section \<open>Package lock\<close>

text \<open>
  Time is counted in milliseconds from the moment \<open>Acquire\<close> is called. A context is given by
  the time at which it is done and the error \<open>ctx.Err()\<close> reports from then on; \<open>None\<close> is a
  context that is never done. \<open>TryLock path t\<close> is what one non-blocking attempt on the lock file
  gives at time \<open>t\<close>: the lock, a file held by someone else, or an error.

  \<open>TryLockContext\<close> is the method of the lock library (gofrs/flock): it returns at once
  with \<open>ctx.Err()\<close> when the context is already done, then tries, returns on success or error,
  and otherwise waits for the context or for the retry delay, whichever comes first. It never
  returns \<open>false\<close> without an error.
\<close>

datatype try_result = LockTaken | LockBusy | LockError error

record lock_world =
  TryLock :: "string \<Rightarrow> nat \<Rightarrow> try_result"

datatype FileLock = FileLock string

definition WithTimeout :: "(nat \<times> error) option \<Rightarrow> nat \<Rightarrow> nat \<times> error" where
  "WithTimeout ctx timeout =
     (case ctx of
        None \<Rightarrow> (timeout, DeadlineExceeded)
      | Some (t, err) \<Rightarrow> (if t \<le> timeout then (t, err) else (timeout, DeadlineExceeded)))"

definition retryDelay :: nat where
  "retryDelay = 100"

function tryCtx :: "(nat \<Rightarrow> try_result) \<Rightarrow> nat \<times> error \<Rightarrow> nat \<Rightarrow> bool \<times> error option" where
  "tryCtx fn (done_at, err) now =
     (case fn now of
        LockTaken \<Rightarrow> (True, None)
      | LockError e \<Rightarrow> (False, Some e)
      | LockBusy \<Rightarrow>
          if done_at \<le> now + retryDelay then (False, Some err)
          else tryCtx fn (done_at, err) (now + retryDelay))"
  by pat_completeness auto
termination
  by (relation "measure (\<lambda>(fn, (done_at, err), now). done_at - now)")
     (auto simp: retryDelay_def)

definition TryLockContext :: "lock_world \<Rightarrow> string \<Rightarrow> nat \<times> error \<Rightarrow> bool \<times> error option" where
  "TryLockContext L path ctx =
     (if fst ctx = 0 then (False, Some (snd ctx)) else tryCtx (TryLock L path) ctx 0)"

definition Acquire :: "lock_world \<Rightarrow> (nat \<times> error) option \<Rightarrow> string \<Rightarrow> nat \<Rightarrow> error + FileLock" where
  "Acquire L ctx path timeout =
     (let ctx' = WithTimeout ctx timeout
      in (case TryLockContext L path ctx' of
            (ok, Some err) \<Rightarrow> Inl (Wrapped path err)
          | (ok, None) \<Rightarrow> (if \<not> ok then Inl ErrAcquireTimeout else Inr (FileLock path))))"

text \<open>The condition of claim C5: within the timeout the lock is never obtained (every attempt
  finds it held) and the caller's context is not done.\<close>

definition never_acquired :: "lock_world \<Rightarrow> string \<Rightarrow> nat \<Rightarrow> bool" where
  "never_acquired L path timeout = (\<forall>t<timeout. TryLock L path t = LockBusy)"

definition not_cancelled_within :: "(nat \<times> error) option \<Rightarrow> nat \<Rightarrow> bool" where
  "not_cancelled_within ctx timeout = (case ctx of None \<Rightarrow> True | Some (t, err) \<Rightarrow> timeout < t)"

section \<open>Package pathutil\<close>

text \<open>\<open>errors.As(err, &perr)\<close> for \<open>*os.PathError\<close>: the first one in the chain.\<close>

fun as_PathError :: "error \<Rightarrow> error option" where
  "as_PathError (PathError op p e) = Some (PathError op p e)"
| "as_PathError (Wrapped msg e) = as_PathError e"
| "as_PathError e = None"

text \<open>\<open>filepath.Abs\<close>: an absolute path is cleaned, a relative one is joined to the working
  directory.\<close>

definition Abs :: "world \<Rightarrow> string \<Rightarrow> error + string" where
  "Abs w path =
     (if IsAbs path then Inr (Clean path)
      else (case Getwd w of Inl err \<Rightarrow> Inl err | Inr wd \<Rightarrow> Inr (Join [wd, path])))"

definition Canonicalize :: "world \<Rightarrow> string \<Rightarrow> error + string" where
  "Canonicalize w path =
     (case Abs w path of
        Inl err \<Rightarrow> Inl err
      | Inr abs0 \<Rightarrow>
          let abs = Clean abs0
          in (case EvalSymlinks w abs of
                Inr resolved \<Rightarrow> Inr resolved
              | Inl err \<Rightarrow>
                  (case as_PathError err of
                     Some perr \<Rightarrow> (if errors_Is perr ErrNotExist then Inr abs else Inl err)
                   | None \<Rightarrow> Inl err)))"

definition ExpandTilde :: "world \<Rightarrow> string \<Rightarrow> error + string" where
  "ExpandTilde w path =
     (if path = ''~'' \<or> HasPrefix path ''~/'' then
        (case UserHomeDir w of
           Inl err \<Rightarrow> Inl err
         | Inr home \<Rightarrow>
             if path = ''~'' then Inr home else Inr (Join [home, TrimPrefix path ''~/'']))
      else Inr path)"

section \<open>Package gitx\<close>

definition DetachedBranch :: string where
  "DetachedBranch = ''(detached)''"

definition CurrentBranchGit :: "world \<Rightarrow> string \<Rightarrow> error + string" where
  "CurrentBranchGit w dir =
     (case git_Run w dir [''branch'', ''--show-current''] of
        (res, Some err) \<Rightarrow> Inl (Wrapped ''git branch --show-current'' err)
      | (res, None) \<Rightarrow>
          let branch = TrimSpace (Stdout res)
          in if branch \<noteq> [] then Inr branch
             else
               (case git_Run w dir [''rev-parse'', ''--abbrev-ref'', ''HEAD''] of
                  (res2, Some err) \<Rightarrow> Inl (Wrapped ''git rev-parse --abbrev-ref HEAD'' err)
                | (res2, None) \<Rightarrow>
                    let branch2 = TrimSpace (Stdout res2)
                    in if branch2 = [] \<or> branch2 = ''HEAD'' then Inr DetachedBranch
                       else Inr branch2))"

section \<open>Package naming\<close>

text \<open>Modelled from the spec: \<open>SanitizeBranchName\<close> of package \<open>naming\<close>, whose source file is
  not among the sources (its test is). The specification, section 4.9: trim white space;
  replace each of slash, space, colon, star, question mark, double quote, less-than,
  greater-than and bar by a hyphen; trim leading and trailing hyphens.\<close>

definition SanitizeBranchName :: "string \<Rightarrow> string" where
  "SanitizeBranchName s =
     (let t = TrimSpace s;
          r = map (\<lambda>c. if c \<in> set [CHR ''/'', CHR '' '', CHR '':'', CHR ''*'', CHR ''?'', CHR 0x22,
                                     CHR ''<'', CHR ''>'', CHR ''|'']
                         then CHR ''-'' else c) t
      in rev (dropWhile (\<lambda>c. c = CHR ''-'') (rev (dropWhile (\<lambda>c. c = CHR ''-'') r))))"

section \<open>Package worktrees\<close>

record Paths =
  BaseDir :: string
  Prefix :: string

definition ResolvePaths :: "world \<Rightarrow> Resolver \<Rightarrow> error + Paths" where
  "ResolvePaths w cfg =
     (case Default cfg w ''gtr.worktrees.prefix'' ''GTR_WORKTREES_PREFIX'' [] [] of
        Inl err \<Rightarrow> Inl (Wrapped ''resolve gtr.worktrees.prefix'' err)
      | Inr pfx \<Rightarrow>
          (case Default cfg w ''gtr.worktrees.dir'' ''GTR_WORKTREES_DIR'' [] [] of
             Inl err \<Rightarrow> Inl (Wrapped ''resolve gtr.worktrees.dir'' err)
           | Inr baseDir0 \<Rightarrow>
               (case (if baseDir0 = [] then
                        (let repoName = Base (MainRoot cfg)
                         in Inr (Join [Dir (MainRoot cfg), repoName @ ''-worktrees'']))
                      else
                        (case ExpandTilde w baseDir0 of
                           Inl err \<Rightarrow> Inl (Wrapped (''expand tilde for '' @ baseDir0) err)
                         | Inr expanded \<Rightarrow>
                             if \<not> IsAbs expanded then Inr (Join [MainRoot cfg, expanded])
                             else Inr expanded)) of
                  Inl err \<Rightarrow> Inl err
                | Inr baseDir1 \<Rightarrow>
                    (case Canonicalize w baseDir1 of
                       Inl err \<Rightarrow> Inl (Wrapped ''canonicalize base dir'' err)
                     | Inr baseDir \<Rightarrow> Inr \<lparr>BaseDir = baseDir, Prefix = pfx\<rparr>))))"

record PorcelainEntry =
  Path :: string
  Branch :: string
  Detached :: bool
  Locked :: bool
  Prunable :: bool

definition worktreePathFromMeta :: "world \<Rightarrow> string \<Rightarrow> error + string" where
  "worktreePathFromMeta w metaDir =
     (let gitdirFile = Join [metaDir, ''gitdir'']
      in (case ReadFile w gitdirFile of
            Inl err \<Rightarrow> Inl (Wrapped (''read '' @ gitdirFile) err)
          | Inr b \<Rightarrow>
              let gitdirPath0 = TrimSpace b
              in if gitdirPath0 = [] then Inl (ErrorString (''empty gitdir file: '' @ gitdirFile))
                 else
                   let gitdirPath1 = (if \<not> IsAbs gitdirPath0 then Join [metaDir, gitdirPath0]
                                      else gitdirPath0)
                   in (case Canonicalize w gitdirPath1 of
                         Inl err \<Rightarrow> Inl (Wrapped ''canonicalize gitdir path'' err)
                       | Inr gitdirPath \<Rightarrow>
                           (case Canonicalize w (Dir gitdirPath) of
                              Inl err \<Rightarrow> Inl (Wrapped ''canonicalize worktree path'' err)
                            | Inr worktreePath \<Rightarrow> Inr worktreePath))))"

definition worktreeBranchFromMeta :: "world \<Rightarrow> string \<Rightarrow> error + string \<times> bool" where
  "worktreeBranchFromMeta w metaDir =
     (let headFile = Join [metaDir, ''HEAD'']
      in (case ReadFile w headFile of
            Inl err \<Rightarrow>
              (if errors_Is err ErrNotExist then Inr (DetachedBranch, True)
               else Inl (Wrapped (''read '' @ headFile) err))
          | Inr b \<Rightarrow>
              let line = TrimSpace b
              in if line = [] then Inr (DetachedBranch, True)
                 else
                   (case CutPrefix line ''ref: '' of
                      Some ref \<Rightarrow>
                        (case CutPrefix ref ''refs/heads/'' of
                           Some after \<Rightarrow> Inr (after, False)
                         | None \<Rightarrow> Inr (ref, False))
                    | None \<Rightarrow> Inr (DetachedBranch, True))))"

definition fileExists :: "world \<Rightarrow> string \<Rightarrow> error + bool" where
  "fileExists w path =
     (case Stat w path of
        Inr info \<Rightarrow> Inr True
      | Inl err \<Rightarrow> (if errors_Is err ErrNotExist then Inr False else Inl err))"

definition isPrunableWorktree :: "world \<Rightarrow> string \<Rightarrow> error + bool" where
  "isPrunableWorktree w worktreePath =
     (case Stat w worktreePath of
        Inl err \<Rightarrow> (if errors_Is err ErrNotExist then Inr True else Inl err)
      | Inr isDir \<Rightarrow>
          if \<not> isDir then Inr True
          else
            (case Stat w (Join [worktreePath, ''.git'']) of
               Inl err \<Rightarrow> (if errors_Is err ErrNotExist then Inr True else Inl err)
             | Inr info \<Rightarrow> Inr False))"

text \<open>The loop of \<open>ListPorcelain\<close> over the entries of \<open><common>/worktrees\<close>.\<close>

fun ListPorcelain_entries ::
  "world \<Rightarrow> string \<Rightarrow> (string \<Rightarrow> error + string) \<Rightarrow> (string \<times> bool) list
     \<Rightarrow> PorcelainEntry list \<Rightarrow> error + PorcelainEntry list" where
  "ListPorcelain_entries w worktreesDir resolveBranch [] out = Inr out"
| "ListPorcelain_entries w worktreesDir resolveBranch ((name, isDir) # es) out =
     (case ctx_Err w of
        Some err \<Rightarrow> Inl err
      | None \<Rightarrow>
          if \<not> isDir then ListPorcelain_entries w worktreesDir resolveBranch es out
          else
            let metaDir = Join [worktreesDir, name]
            in (case worktreePathFromMeta w metaDir of
                  Inl err \<Rightarrow> Inl err
                | Inr wtPath \<Rightarrow>
            (case fileExists w (Join [metaDir, ''locked'']) of
                  Inl err \<Rightarrow> Inl err
                | Inr locked \<Rightarrow>
            (case isPrunableWorktree w wtPath of
                  Inl err \<Rightarrow> Inl err
                | Inr prunable \<Rightarrow>
            (case worktreeBranchFromMeta w metaDir of
                  Inl err \<Rightarrow> Inl err
                | Inr (metaBranch, metaDetached) \<Rightarrow>
                    let detached0 = (metaDetached \<or> metaBranch = DetachedBranch);
                        branch1 = (if metaBranch = [] then DetachedBranch else metaBranch);
                        detached1 = (if metaBranch = [] then True else detached0)
                    in (case (if branch1 = ''.invalid'' \<and> \<not> prunable then
                                (case resolveBranch wtPath of
                                   Inl err \<Rightarrow> Inl err
                                 | Inr resolved0 \<Rightarrow>
                                     let resolved = (if resolved0 = [] then DetachedBranch
                                                     else resolved0)
                                     in Inr (resolved, resolved = DetachedBranch))
                              else if branch1 = ''.invalid'' then Inr (DetachedBranch, True)
                              else Inr (branch1, detached1)) of
                          Inl err \<Rightarrow> Inl err
                        | Inr (branch, detached) \<Rightarrow>
                            ListPorcelain_entries w worktreesDir resolveBranch es
                              (out @ [\<lparr>Path = wtPath, Branch = branch, Detached = detached,
                                       Locked = locked, Prunable = prunable\<rparr>])))))))"

definition ListPorcelain ::
  "world \<Rightarrow> string \<Rightarrow> string \<Rightarrow> (string \<Rightarrow> error + string) \<Rightarrow> error + PorcelainEntry list" where
  "ListPorcelain w commonDir0 mainRoot0 resolveBranch =
     (case Canonicalize w commonDir0 of
        Inl err \<Rightarrow> Inl (Wrapped ''canonicalize common dir'' err)
      | Inr commonDir \<Rightarrow>
     (case Canonicalize w mainRoot0 of
        Inl err \<Rightarrow> Inl (Wrapped ''canonicalize main root'' err)
      | Inr mainRoot \<Rightarrow>
     (case worktreeBranchFromMeta w commonDir of
        Inl err \<Rightarrow> Inl err
      | Inr (mainBranch0, mainDetached0) \<Rightarrow>
     (case (if mainBranch0 = ''.invalid'' \<or> mainBranch0 = [] then
              (case resolveBranch mainRoot of
                 Inl err \<Rightarrow> Inl err
               | Inr resolved0 \<Rightarrow>
                   let resolved = (if resolved0 = [] then DetachedBranch else resolved0)
                   in Inr (resolved, resolved = DetachedBranch))
            else Inr (mainBranch0, mainDetached0)) of
        Inl err \<Rightarrow> Inl err
      | Inr (mainBranch, mainDetached1) \<Rightarrow>
          let mainDetached = (if mainBranch = DetachedBranch then True else mainDetached1);
              out = [\<lparr>Path = mainRoot, Branch = mainBranch, Detached = mainDetached,
                      Locked = False, Prunable = False\<rparr>];
              worktreesDir = Join [commonDir, ''worktrees'']
          in (case ReadDir w worktreesDir of
                Inl err \<Rightarrow>
                  (if errors_Is err ErrNotExist then Inr out
                   else Inl (Wrapped (''read worktrees dir '' @ worktreesDir) err))
              | Inr entries \<Rightarrow>
                  ListPorcelain_entries w worktreesDir resolveBranch entries out)))))"

section \<open>Package gtr: the read-only operations of the Manager\<close>

datatype WorktreeStatus =
    WorktreeStatusOK
  | WorktreeStatusDetached
  | WorktreeStatusLocked
  | WorktreeStatusPrunable
  | WorktreeStatusMissing

text \<open>\<open>repoctx.Context\<close>; its field \<open>MainRoot\<close> is written \<open>RepoMainRoot\<close> here, because
  the resolver has a field of the same name and record fields share one name space. For the
  same reason the fields \<open>Path\<close> and \<open>Branch\<close> of \<open>Target\<close> are \<open>TargetPath\<close> and
  \<open>TargetBranch\<close>, and the field \<open>Target\<close> of \<open>ListEntry\<close> is \<open>EntryTarget\<close>.\<close>

record Context =
  StartDir :: string
  WorktreeRoot :: string
  CommonDir :: string
  RepoMainRoot :: string

record Manager =
  repoCtx :: Context
  cfg :: Resolver
  yes :: bool

record Target =
  IsMain :: bool
  TargetPath :: string
  TargetBranch :: string

record ListEntry =
  EntryTarget :: Target
  Status :: WorktreeStatus

definition currentBranch :: "Manager \<Rightarrow> world \<Rightarrow> string \<Rightarrow> error + string" where
  "currentBranch m w dir = CurrentBranchGit w dir"

text \<open>The map \<open>byPath\<close>: a later row replaces an earlier one with the same path.\<close>

fun index_byPath :: "PorcelainEntry list \<Rightarrow> (string \<Rightarrow> PorcelainEntry option)
    \<Rightarrow> (string \<Rightarrow> PorcelainEntry option)" where
  "index_byPath [] byPath = byPath"
| "index_byPath (e # es) byPath = index_byPath es (byPath(Path e \<mapsto> e))"

text \<open>The last loop of \<open>ResolveTarget\<close>: the first linked row whose branch is the identifier.\<close>

fun ResolveTarget_byBranch :: "string \<Rightarrow> string \<Rightarrow> PorcelainEntry list \<Rightarrow> error + Target" where
  "ResolveTarget_byBranch mainRoot identifier [] = Inl (Wrapped identifier ErrTargetNotFound)"
| "ResolveTarget_byBranch mainRoot identifier (e # es) =
     (if Path e = mainRoot then ResolveTarget_byBranch mainRoot identifier es
      else if Branch e = identifier
        then Inr \<lparr>IsMain = False, TargetPath = Path e, TargetBranch = Branch e\<rparr>
      else ResolveTarget_byBranch mainRoot identifier es)"

text \<open>The row of the main repository as \<open>ResolveTarget\<close> finds it: the one indexed under
  the main root, or else one made from the branch \<open>git\<close> reports there.\<close>

definition ResolveTarget_mainEntry ::
  "Manager \<Rightarrow> world \<Rightarrow> (string \<Rightarrow> PorcelainEntry option) \<Rightarrow> error + PorcelainEntry" where
  "ResolveTarget_mainEntry m w byPath =
     (case byPath (RepoMainRoot (repoCtx m)) of
        Some mainEntry \<Rightarrow> Inr mainEntry
      | None \<Rightarrow>
          (case currentBranch m w (RepoMainRoot (repoCtx m)) of
             Inl err \<Rightarrow> Inl err
           | Inr branch \<Rightarrow>
               Inr \<lparr>Path = RepoMainRoot (repoCtx m), Branch = branch,
                    Detached = (branch = DetachedBranch), Locked = False, Prunable = False\<rparr>))"

definition ResolveTarget :: "Manager \<Rightarrow> world \<Rightarrow> string \<Rightarrow> error + Target" where
  "ResolveTarget m w identifier =
     (if identifier = [] then Inl (Wrapped ''empty identifier'' ErrTargetNotFound)
      else
        (case ListPorcelain w (CommonDir (repoCtx m)) (RepoMainRoot (repoCtx m))
                (currentBranch m w) of
           Inl err \<Rightarrow> Inl err
         | Inr entries \<Rightarrow>
             let byPath = index_byPath entries Map.empty
             in (case ResolveTarget_mainEntry m w byPath of
                   Inl err \<Rightarrow> Inl err
                 | Inr mainEntry \<Rightarrow>
                     if identifier = ''1'' then
                       Inr \<lparr>IsMain = True, TargetPath = RepoMainRoot (repoCtx m),
                            TargetBranch = Branch mainEntry\<rparr>
                     else if Branch mainEntry \<noteq> DetachedBranch \<and> identifier = Branch mainEntry then
                       Inr \<lparr>IsMain = True, TargetPath = RepoMainRoot (repoCtx m),
                            TargetBranch = Branch mainEntry\<rparr>
                     else
                       (case ResolvePaths w (cfg m) of
                          Inl err \<Rightarrow> Inl err
                        | Inr paths \<Rightarrow>
                            let candidate = Join [BaseDir paths,
                                                  Prefix paths @ SanitizeBranchName identifier]
                            in (case byPath candidate of
                                  Some e \<Rightarrow>
                                    Inr \<lparr>IsMain = False, TargetPath = Path e,
                                         TargetBranch = Branch e\<rparr>
                                | None \<Rightarrow>
                                    (case Stat w candidate of
                                       Inr info \<Rightarrow>
                                         (case currentBranch m w candidate of
                                            Inl err \<Rightarrow> Inl err
                                          | Inr branch \<Rightarrow>
                                              Inr \<lparr>IsMain = False, TargetPath = candidate,
                                                   TargetBranch = branch\<rparr>)
                                     | Inl err \<Rightarrow>
                                         ResolveTarget_byBranch (RepoMainRoot (repoCtx m))
                                           identifier entries))))))"

text \<open>The keys of the map \<open>seenPaths\<close>, each once, in the order they were first stored. Go
  visits them in no fixed order; \<open>List\<close> sorts what it builds from them.\<close>

definition add_seen :: "string list \<Rightarrow> string \<Rightarrow> string list" where
  "add_seen seen p = (if p \<in> set seen then seen else seen @ [p])"

text \<open>The sweep of the base directory: directories whose name starts with the prefix.\<close>

fun List_sweep :: "Paths \<Rightarrow> (string \<times> bool) list \<Rightarrow> string list \<Rightarrow> string list" where
  "List_sweep paths [] seen = seen"
| "List_sweep paths ((name, isDir) # ds) seen =
     (if \<not> isDir then List_sweep paths ds seen
      else if \<not> HasPrefix name (Prefix paths) then List_sweep paths ds seen
      else List_sweep paths ds (add_seen seen (Join [BaseDir paths, name])))"

text \<open>The body of the loop that builds one \<open>ListEntry\<close> for a path.\<close>

definition List_entry ::
  "Manager \<Rightarrow> world \<Rightarrow> (string \<Rightarrow> PorcelainEntry option) \<Rightarrow> string \<Rightarrow> ListEntry" where
  "List_entry m w byPath path =
     (let branch =
            (case byPath path of
               Some e \<Rightarrow> Branch e
             | None \<Rightarrow>
                 (case currentBranch m w path of
                    Inr b \<Rightarrow> (if b \<noteq> [] then b else DetachedBranch)
                  | Inl err \<Rightarrow> DetachedBranch));
          status =
            (case byPath path of
               None \<Rightarrow> WorktreeStatusMissing
             | Some e \<Rightarrow>
                 if Locked e then WorktreeStatusLocked
                 else if Prunable e then WorktreeStatusPrunable
                 else if Detached e then WorktreeStatusDetached
                 else WorktreeStatusOK)
      in \<lparr>EntryTarget = \<lparr>IsMain = (path = RepoMainRoot (repoCtx m)), TargetPath = path,
                          TargetBranch = branch\<rparr>,
          Status = status\<rparr>)"

text \<open>The comparison given to \<open>sort.Slice\<close>: the main repository first, then by branch, then
  by path; strings compare byte by byte.\<close>

definition List_less :: "ListEntry \<Rightarrow> ListEntry \<Rightarrow> bool" where
  "List_less a b =
     (if IsMain (EntryTarget a) \<noteq> IsMain (EntryTarget b) then IsMain (EntryTarget a)
      else if TargetBranch (EntryTarget a) \<noteq> TargetBranch (EntryTarget b)
        then TargetBranch (EntryTarget a) < TargetBranch (EntryTarget b)
      else TargetPath (EntryTarget a) < TargetPath (EntryTarget b))"

text \<open>\<open>sort.Slice\<close> as insertion sort. The entries have distinct paths, so the comparison
  orders any two of them and every sorting algorithm gives the same slice.\<close>

fun insert_sorted :: "('a \<Rightarrow> 'a \<Rightarrow> bool) \<Rightarrow> 'a \<Rightarrow> 'a list \<Rightarrow> 'a list" where
  "insert_sorted lt x [] = [x]"
| "insert_sorted lt x (y # ys) =
     (if lt y x then y # insert_sorted lt x ys else x # y # ys)"

definition sort_Slice :: "('a \<Rightarrow> 'a \<Rightarrow> bool) \<Rightarrow> 'a list \<Rightarrow> 'a list" where
  "sort_Slice lt xs = foldr (insert_sorted lt) xs []"

definition List :: "Manager \<Rightarrow> world \<Rightarrow> error + ListEntry list" where
  "List m w =
     (case ListPorcelain w (CommonDir (repoCtx m)) (RepoMainRoot (repoCtx m))
             (currentBranch m w) of
        Inl err \<Rightarrow> Inl err
      | Inr porcelainEntries \<Rightarrow>
          (case ResolvePaths w (cfg m) of
             Inl err \<Rightarrow> Inl err
           | Inr paths \<Rightarrow>
               let byPath = index_byPath porcelainEntries Map.empty;
                   seen0 = foldl add_seen [] (map Path porcelainEntries)
               in (case (case ReadDir w (BaseDir paths) of
                           Inr dirs \<Rightarrow> Inr (List_sweep paths dirs seen0)
                         | Inl err \<Rightarrow>
                             (if \<not> errors_Is err ErrNotExist then Inl err else Inr seen0)) of
                     Inl err \<Rightarrow> Inl err
                   | Inr seenPaths \<Rightarrow>
                       Inr (sort_Slice List_less (map (List_entry m w byPath) seenPaths)))))"

text \<open>What claim C2 calls a worktree existing at a path: the enumerator has a row for the
  path, or the path is on disk and \<open>git\<close> reports a branch there (a working tree without
  metadata).\<close>

definition worktree_at :: "Manager \<Rightarrow> world \<Rightarrow> PorcelainEntry list \<Rightarrow> string \<Rightarrow> bool" where
  "worktree_at m w rows p =
     (p \<in> Path ` set rows \<or>
      (case Stat w p of
         Inl err \<Rightarrow> False
       | Inr info \<Rightarrow> (case currentBranch m w p of Inl err \<Rightarrow> False | Inr b \<Rightarrow> True)))"

text \<open>The rows of the enumerator as the Manager asks for them.\<close>

definition enumerate :: "Manager \<Rightarrow> world \<Rightarrow> error + PorcelainEntry list" where
  "enumerate m w =
     ListPorcelain w (CommonDir (repoCtx m)) (RepoMainRoot (repoCtx m)) (currentBranch m w)"

text \<open>The branch \<open>List\<close> gives an entry without a row: what \<open>git\<close> reports in the directory,
  and \<open>(detached)\<close> when it fails or reports nothing.\<close>

definition swept_branch :: "Manager \<Rightarrow> world \<Rightarrow> string \<Rightarrow> string" where
  "swept_branch m w path =
     (case currentBranch m w path of
        Inr b \<Rightarrow> (if b \<noteq> [] then b else DetachedBranch)
      | Inl err \<Rightarrow> DetachedBranch)"

section \<open>Effects: the operations of the Manager that act on the world\<close>

text \<open>
  An operation that changes something is modelled by the list of its effects. An \<open>event\<close> is
  one call that takes or gives back the repository lock, changes the file system or the
  repository, or starts a process:
  \<^item> \<open>LockAcquired p\<close>: \<open>lock.Acquire\<close> returned a lock on \<open>p\<close>; \<open>LockReleased p\<close>: its
    \<open>Release\<close>, deferred to the end of the operation;
  \<^item> \<open>MkdirAll\<close>, \<open>RemoveDir\<close>: \<open>os.MkdirAll\<close>, \<open>os.Remove\<close>;
  \<^item> \<open>GitCommand dir args\<close>: \<open>m.git.Run\<close> with a command that is not a query (fetch, branch,
    worktree add, remove and prune);
  \<^item> \<open>CopyFilesCall src dst dry\<close>, \<open>CopyDirectoriesCall src dst\<close>: the two entry points of
    package copy; \<open>HooksRun phase dir hooks\<close>: \<open>hooks.Run\<close>;
  \<^item> \<open>CommandRun\<close>, \<open>AdapterExec\<close>, \<open>OpenInGUI\<close>: the processes started by \<open>Run\<close>, by
    \<open>adapters.Exec\<close> and by \<open>platform.OpenInGUI\<close>.
  Queries (\<open>git config --get\<close>, \<open>show-ref\<close>, \<open>branch --show-current\<close>, \<open>os.Stat\<close>,
  \<open>os.ReadDir\<close>) leave no event: they read the world as it is after the events so far.

  The environment \<open>env\<close> answers as a function of the events so far: \<open>view\<close> is the world the
  queries see, \<open>locks\<close> the state of the lock files, \<open>outcome\<close> the error, if any, of an
  effect, \<open>exit_status\<close> how a started process ends. \<open>DefaultBranchAuto\<close>, \<open>ResolveEditor\<close>,
  \<open>ResolveAI\<close> and \<open>LookPath\<close> stand for the functions of these names, which read references,
  environment variables and \<open>PATH\<close> and have no effect.
\<close>

datatype event =
    LockAcquired string
  | LockReleased string
  | MkdirAll string
  | RemoveDir string
  | GitCommand string "string list"
  | CopyFilesCall string string bool
  | CopyDirectoriesCall string string
  | HooksRun string string "string list"
  | CommandRun string "string list"
  | AdapterExec string "string list" string
  | OpenInGUI string

datatype Mode = ModeRun | ModeStart

record Spec =
  SpecName :: string
  Command :: string
  Args :: "string list"
  SpecDir :: string
  SpecMode :: Mode

record env =
  view :: "event list \<Rightarrow> world"
  locks :: "event list \<Rightarrow> lock_world"
  caller_ctx :: "(nat \<times> error) option"
  outcome :: "event list \<Rightarrow> event \<Rightarrow> error option"
  exit_status :: "event list \<Rightarrow> event \<Rightarrow> proc"
  DefaultBranchAuto :: "event list \<Rightarrow> error + string"
  ResolveEditor :: "event list \<Rightarrow> string \<Rightarrow> string \<Rightarrow> error + Spec"
  ResolveAI :: "event list \<Rightarrow> string \<Rightarrow> string \<Rightarrow> string list \<Rightarrow> error + Spec"
  LookPath :: "event list \<Rightarrow> string \<Rightarrow> error + string"

fun lock_event :: "event \<Rightarrow> bool" where
  "lock_event (LockAcquired p) = True"
| "lock_event (LockReleased p) = True"
| "lock_event e = False"

text \<open>The events that change the repository or the file system.\<close>

fun mutates :: "event \<Rightarrow> bool" where
  "mutates (MkdirAll p) = True"
| "mutates (RemoveDir p) = True"
| "mutates (GitCommand dir args) = True"
| "mutates (CopyFilesCall src dst dry) = (\<not> dry)"
| "mutates (CopyDirectoriesCall src dst) = True"
| "mutates (HooksRun phase dir hooks) = True"
| "mutates e = False"

definition perform :: "env \<Rightarrow> event \<Rightarrow> event list \<Rightarrow> error option \<times> event list" where
  "perform E e h = (outcome E h e, h @ [e])"

definition worktreeIncludePath :: "Resolver \<Rightarrow> string" where
  "worktreeIncludePath r = Join [MainRoot r, ''.worktreeinclude'']"

definition WorktreeIncludePatterns :: "Resolver \<Rightarrow> world \<Rightarrow> error + string list" where
  "WorktreeIncludePatterns r w =
     (case ReadFile w (worktreeIncludePath r) of
        Inl err \<Rightarrow> (if errors_Is err ErrNotExist then Inr [] else Inl err)
      | Inr b \<Rightarrow>
          Inr (filter (\<lambda>line. \<not> (line = [] \<or> HasPrefix line ''#''))
                 (map TrimSpace (Split b CHR 0x0A))))"

text \<open>\<open>Manager.runHooks\<close>, as package \<open>wr\<close> has it; \<open>pkg\<close> is the prefix of the configuration
  key, \<open>wr\<close> there. The environment pairs come from a Go map, in no fixed order.\<close>

definition runHooks ::
  "env \<Rightarrow> string \<Rightarrow> Manager \<Rightarrow> string \<Rightarrow> string \<Rightarrow> string list \<Rightarrow> event list
     \<Rightarrow> error option \<times> event list" where
  "runHooks E pkg m phase dir envPairs h =
     (case All (cfg m) (view E h) (pkg @ ''.hook.'' @ phase) (''hooks.'' @ phase) of
        Inl err \<Rightarrow> (Some err, h)
      | Inr vals \<Rightarrow>
          if length vals = 0 then (None, h)
          else perform E (HooksRun phase dir vals) h)"

subsection \<open>Remove\<close>

record RemoveWorktreeOptions =
  DeleteBranch :: bool
  RemoveForce :: bool
  Yes :: bool
  ConfirmDeleteBranch :: "(string \<Rightarrow> error + bool) option"

definition errors_Join :: "error list \<Rightarrow> error option" where
  "errors_Join errs = (if errs = [] then None else Some (Joined errs))"

text \<open>The deletion of the branch, for a target on a branch when \<open>DeleteBranch\<close> is set.\<close>

definition Remove_branch ::
  "env \<Rightarrow> Manager \<Rightarrow> RemoveWorktreeOptions \<Rightarrow> Target \<Rightarrow> event list
     \<Rightarrow> error option \<times> event list" where
  "Remove_branch E m opts target h =
     (let yes0 = (Yes opts \<or> yes m);
          branchD = GitCommand (RepoMainRoot (repoCtx m)) [''branch'', ''-D'', TargetBranch target]
      in if \<not> yes0 \<and> ConfirmDeleteBranch opts \<noteq> None then
           (case the (ConfirmDeleteBranch opts) (TargetBranch target) of
              Inl err \<Rightarrow> (Some err, h)
            | Inr ok \<Rightarrow> (if ok then perform E branchD h else (None, h)))
         else perform E branchD h)"

text \<open>The body of the loop of \<open>Remove\<close> for one identifier: the error it adds to \<open>errs\<close>, if
  any.

  Modelled from the spec: the \<open>runHooks\<close> of package \<open>gtr\<close>, which \<open>Remove\<close> calls last, is not
  among the sources. The specification, section 4.11, has \<open>remove\<close> run the \<open>postRemove\<close> hooks
  from the main root with the environment of \<open>create_worktree\<close>; the call below is the
  \<open>runHooks\<close> of package \<open>wr\<close> with the configuration prefix \<open>gtr\<close>.\<close>

definition Remove_one ::
  "env \<Rightarrow> Manager \<Rightarrow> RemoveWorktreeOptions \<Rightarrow> string \<Rightarrow> event list
     \<Rightarrow> error option \<times> event list" where
  "Remove_one E m opts ident h =
     (case ResolveTarget m (view E h) ident of
        Inl err \<Rightarrow> (Some err, h)
      | Inr target \<Rightarrow>
          if IsMain target then (Some (ErrorString ''cannot remove main repository''), h)
          else
            let args = [''worktree'', ''remove''] @ (if RemoveForce opts then [''--force''] else [])
                         @ [TargetPath target]
            in (case perform E (GitCommand (RepoMainRoot (repoCtx m)) args) h of
                  (Some err, h1) \<Rightarrow> (Some err, h1)
                | (None, h1) \<Rightarrow>
                    (case (if DeleteBranch opts \<and> TargetBranch target \<noteq> []
                              \<and> TargetBranch target \<noteq> DetachedBranch
                           then Remove_branch E m opts target h1 else (None, h1)) of
                       (Some err, h2) \<Rightarrow> (Some err, h2)
                     | (None, h2) \<Rightarrow>
                         runHooks E ''gtr'' m ''postRemove'' (RepoMainRoot (repoCtx m))
                           [''REPO_ROOT='' @ RepoMainRoot (repoCtx m),
                            ''WORKTREE_PATH='' @ TargetPath target,
                            ''BRANCH='' @ TargetBranch target] h2)))"

fun Remove_loop ::
  "env \<Rightarrow> Manager \<Rightarrow> RemoveWorktreeOptions \<Rightarrow> string list \<Rightarrow> error list \<Rightarrow> event list
     \<Rightarrow> error list \<times> event list" where
  "Remove_loop E m opts [] errs h = (errs, h)"
| "Remove_loop E m opts (ident # ids) errs h =
     (case Remove_one E m opts ident h of
        (Some err, h') \<Rightarrow> Remove_loop E m opts ids (errs @ [err]) h'
      | (None, h') \<Rightarrow> Remove_loop E m opts ids errs h')"

definition Remove ::
  "env \<Rightarrow> Manager \<Rightarrow> string list \<Rightarrow> RemoveWorktreeOptions \<Rightarrow> event list
     \<Rightarrow> error option \<times> event list" where
  "Remove E m identifiers opts h =
     (if length identifiers = 0
        then (Some (ErrorString ''at least one identifier is required''), h)
      else
        let lockPath = Join [CommonDir (repoCtx m), ''gtr.lock'']
        in (case Acquire (locks E h) (caller_ctx E) lockPath 30000 of
              Inl err \<Rightarrow> (Some err, h)
            | Inr l \<Rightarrow>
                (case Remove_loop E m opts identifiers [] (h @ [LockAcquired lockPath]) of
                   (errs, h') \<Rightarrow> (errors_Join errs, h' @ [LockReleased lockPath]))))"

subsection \<open>Clean\<close>

record CleanResult =
  RemovedEmptyDirs :: "string list"

text \<open>\<open>os.IsNotExist\<close> looks under a \<open>PathError\<close> but not under \<open>fmt.Errorf\<close>.\<close>

fun os_IsNotExist :: "error \<Rightarrow> bool" where
  "os_IsNotExist (PathError op p e) = (e = ErrNotExist)"
| "os_IsNotExist e = (e = ErrNotExist)"

fun Clean_loop ::
  "env \<Rightarrow> string \<Rightarrow> (string \<times> bool) list \<Rightarrow> string list \<Rightarrow> event list
     \<Rightarrow> (error + string list) \<times> event list" where
  "Clean_loop E baseDir [] removed h = (Inr removed, h)"
| "Clean_loop E baseDir ((name, isDir) # es) removed h =
     (if \<not> isDir then Clean_loop E baseDir es removed h
      else
        let dirPath = Join [baseDir, name]
        in (case ReadDir (view E h) dirPath of
              Inl err \<Rightarrow> Clean_loop E baseDir es removed h
            | Inr children \<Rightarrow>
                if length children \<noteq> 0 then Clean_loop E baseDir es removed h
                else
                  (case perform E (RemoveDir dirPath) h of
                     (Some err, h') \<Rightarrow>
                       (Inl (Wrapped (''remove empty directory '' @ dirPath) err), h')
                   | (None, h') \<Rightarrow> Clean_loop E baseDir es (removed @ [dirPath]) h')))"

text \<open>The part of \<open>Clean\<close> that runs with the lock held.\<close>

definition Clean_locked ::
  "env \<Rightarrow> Manager \<Rightarrow> event list \<Rightarrow> (error + CleanResult) \<times> event list" where
  "Clean_locked E m h =
     (case perform E (GitCommand (RepoMainRoot (repoCtx m)) [''worktree'', ''prune'']) h of
        (pruned, h1) \<Rightarrow>
          (case ResolvePaths (view E h1) (cfg m) of
             Inl err \<Rightarrow> (Inl err, h1)
           | Inr paths \<Rightarrow>
               (case Stat (view E h1) (BaseDir paths) of
                  Inl err \<Rightarrow>
                    (if os_IsNotExist err then (Inr \<lparr>RemovedEmptyDirs = []\<rparr>, h1)
                     else (Inl err, h1))
                | Inr info \<Rightarrow>
                    (case ReadDir (view E h1) (BaseDir paths) of
                       Inl err \<Rightarrow> (Inl err, h1)
                     | Inr entries \<Rightarrow>
                         (case Clean_loop E (BaseDir paths) entries [] h1 of
                            (Inl err, h2) \<Rightarrow> (Inl err, h2)
                          | (Inr removed, h2) \<Rightarrow>
                              (Inr \<lparr>RemovedEmptyDirs = removed\<rparr>, h2))))))"

text \<open>\<open>Manager.Clean\<close>, so written because \<open>Clean\<close> is \<open>filepath.Clean\<close> above.\<close>

definition Manager_Clean ::
  "env \<Rightarrow> Manager \<Rightarrow> event list \<Rightarrow> (error + CleanResult) \<times> event list" where
  "Manager_Clean E m h =
     (let lockPath = Join [CommonDir (repoCtx m), ''wr.lock'']
      in (case Acquire (locks E h) (caller_ctx E) lockPath 30000 of
            Inl err \<Rightarrow> (Inl err, h)
          | Inr l \<Rightarrow>
              (case Clean_locked E m (h @ [LockAcquired lockPath]) of
                 (res, h') \<Rightarrow> (res, h' @ [LockReleased lockPath]))))"

subsection \<open>CreateWorktree\<close>

definition TrackModeAuto :: string where "TrackModeAuto = ''auto''"
definition TrackModeRemote :: string where "TrackModeRemote = ''remote''"
definition TrackModeLocal :: string where "TrackModeLocal = ''local''"
definition TrackModeNone :: string where "TrackModeNone = ''none''"

record CreateWorktreeOptions =
  FromRef :: string
  FromCurrent :: bool
  TrackMode :: string
  NoCopy :: bool
  NoFetch :: bool
  Force :: bool
  NameSuffix :: string

definition resolveDefaultBranch :: "env \<Rightarrow> Manager \<Rightarrow> event list \<Rightarrow> error + string" where
  "resolveDefaultBranch E m h =
     (case Default (cfg m) (view E h) ''wr.defaultBranch'' ''GTR_DEFAULT_BRANCH'' ''auto'' [] of
        Inl err \<Rightarrow> Inl err
      | Inr configured \<Rightarrow>
          if configured \<noteq> ''auto'' then Inr configured else DefaultBranchAuto E h)"

definition refExists :: "Manager \<Rightarrow> world \<Rightarrow> string \<Rightarrow> error + bool" where
  "refExists m w ref =
     (case git_Run w (RepoMainRoot (repoCtx m)) [''show-ref'', ''--verify'', ''--quiet'', ref] of
        (res, None) \<Rightarrow> Inr True
      | (res, Some err) \<Rightarrow>
          (case as_ExitError err of
             Some code \<Rightarrow> (if code = 1 then Inr False else Inl err)
           | None \<Rightarrow> Inl err))"

definition gitWorktreeAdd ::
  "env \<Rightarrow> Manager \<Rightarrow> string list \<Rightarrow> string \<Rightarrow> string \<Rightarrow> event list
     \<Rightarrow> error option \<times> event list" where
  "gitWorktreeAdd E m forceFlag path branch h =
     perform E (GitCommand (RepoMainRoot (repoCtx m))
                  ([''worktree'', ''add''] @ forceFlag @ [path, branch])) h"

definition gitWorktreeAddNewBranch ::
  "env \<Rightarrow> Manager \<Rightarrow> string list \<Rightarrow> string \<Rightarrow> string \<Rightarrow> string \<Rightarrow> event list
     \<Rightarrow> error option \<times> event list" where
  "gitWorktreeAddNewBranch E m forceFlag path branch fromRef h =
     perform E (GitCommand (RepoMainRoot (repoCtx m))
                  ([''worktree'', ''add''] @ forceFlag @ [path, ''-b'', branch, fromRef])) h"

definition plumbingRemoteBranchRef :: "string \<Rightarrow> string \<Rightarrow> string" where
  "plumbingRemoteBranchRef remote branch = ''refs/remotes/'' @ remote @ ''/'' @ branch"

definition plumbingLocalBranchRef :: "string \<Rightarrow> string" where
  "plumbingLocalBranchRef branch = ''refs/heads/'' @ branch"

text \<open>The \<open>switch\<close> on the track mode: which \<open>git worktree add\<close> is run.\<close>

definition CreateWorktree_add ::
  "env \<Rightarrow> Manager \<Rightarrow> string \<Rightarrow> string list \<Rightarrow> string \<Rightarrow> string \<Rightarrow> string \<Rightarrow> bool \<Rightarrow> bool
     \<Rightarrow> event list \<Rightarrow> error option \<times> event list" where
  "CreateWorktree_add E m trackMode forceFlag worktreePath branch fromRef remoteExists
       localExists h =
     (if trackMode = TrackModeRemote then
        (if \<not> remoteExists
           then (Some (ErrorString (''remote branch origin/'' @ branch @ '' does not exist'')), h)
         else if localExists then gitWorktreeAdd E m forceFlag worktreePath branch h
         else
           (case gitWorktreeAddNewBranch E m forceFlag worktreePath branch
                   (''origin/'' @ branch) h of
              (None, h1) \<Rightarrow> (None, h1)
            | (Some err, h1) \<Rightarrow>
                (case gitWorktreeAdd E m forceFlag worktreePath branch h1 of
                   (Some err2, h2) \<Rightarrow> (Some err, h2)
                 | (None, h2) \<Rightarrow> (None, h2))))
      else if trackMode = TrackModeLocal then
        (if \<not> localExists
           then (Some (ErrorString (''local branch '' @ branch @ '' does not exist'')), h)
         else gitWorktreeAdd E m forceFlag worktreePath branch h)
      else if trackMode = TrackModeNone then
        gitWorktreeAddNewBranch E m forceFlag worktreePath branch fromRef h
      else
        (if remoteExists \<and> \<not> localExists then
           (case perform E (GitCommand (RepoMainRoot (repoCtx m))
                              [''branch'', ''--track'', branch, ''origin/'' @ branch]) h of
              (tracked, h1) \<Rightarrow> gitWorktreeAdd E m forceFlag worktreePath branch h1)
         else if localExists then gitWorktreeAdd E m forceFlag worktreePath branch h
         else gitWorktreeAddNewBranch E m forceFlag worktreePath branch fromRef h))"

text \<open>A call of \<open>copy.CopyFiles\<close> as an effect: its result is that of the function above in
  the world of the moment.\<close>

definition CopyFiles_effect ::
  "env \<Rightarrow> string \<Rightarrow> string \<Rightarrow> string list \<Rightarrow> string list \<Rightarrow> Options \<Rightarrow> event list
     \<Rightarrow> (error + Result) \<times> event list" where
  "CopyFiles_effect E src dst includes excludes opts h =
     (CopyFiles (view E h) src dst includes excludes opts,
      h @ [CopyFilesCall src dst (DryRun opts)])"

definition copyIntoWorktree ::
  "env \<Rightarrow> Manager \<Rightarrow> string \<Rightarrow> event list \<Rightarrow> error option \<times> event list" where
  "copyIntoWorktree E m worktreePath h =
     (case All (cfg m) (view E h) ''wr.copy.include'' ''copy.include'' of
        Inl err \<Rightarrow> (Some err, h)
      | Inr includes0 \<Rightarrow>
     (case WorktreeIncludePatterns (cfg m) (view E h) of
        Inl err \<Rightarrow> (Some err, h)
      | Inr fileIncludes \<Rightarrow>
     (case All (cfg m) (view E h) ''wr.copy.exclude'' ''copy.exclude'' of
        Inl err \<Rightarrow> (Some err, h)
      | Inr excludes \<Rightarrow>
          let includes = includes0 @ fileIncludes
          in (case (if length includes > 0 then
                      (case CopyFiles_effect E (RepoMainRoot (repoCtx m)) worktreePath includes
                              excludes \<lparr>PreservePaths = True, DryRun = False\<rparr> h of
                         (Inl err, h1) \<Rightarrow> (Some err, h1)
                       | (Inr res, h1) \<Rightarrow> (None, h1))
                    else (None, h)) of
                (Some err, h1) \<Rightarrow> (Some err, h1)
              | (None, h1) \<Rightarrow>
                  (case All (cfg m) (view E h1) ''wr.copy.includeDirs'' ''copy.includeDirs'' of
                     Inl err \<Rightarrow> (Some err, h1)
                   | Inr includeDirs \<Rightarrow>
                  (case All (cfg m) (view E h1) ''wr.copy.excludeDirs'' ''copy.excludeDirs'' of
                     Inl err \<Rightarrow> (Some err, h1)
                   | Inr excludeDirs \<Rightarrow>
                       if length includeDirs > 0 then
                         perform E (CopyDirectoriesCall (RepoMainRoot (repoCtx m)) worktreePath) h1
                       else (None, h1)))))))"

text \<open>The reference the new branch starts from.\<close>

definition CreateWorktree_fromRef ::
  "env \<Rightarrow> Manager \<Rightarrow> CreateWorktreeOptions \<Rightarrow> event list \<Rightarrow> error + string" where
  "CreateWorktree_fromRef E m opts h =
     (if FromRef opts \<noteq> [] then Inr (FromRef opts)
      else
        (case (if FromCurrent opts then
                 (case CurrentBranchGit (view E h) (RepoMainRoot (repoCtx m)) of
                    Inl err \<Rightarrow> Inl err
                  | Inr current \<Rightarrow> Inr (if current \<noteq> DetachedBranch then current else []))
               else Inr []) of
           Inl err \<Rightarrow> Inl err
         | Inr fromRef \<Rightarrow>
             if fromRef = [] then resolveDefaultBranch E m h else Inr fromRef))"

text \<open>The part of \<open>CreateWorktree\<close> that runs with the lock held.\<close>

definition CreateWorktree_locked ::
  "env \<Rightarrow> Manager \<Rightarrow> string \<Rightarrow> CreateWorktreeOptions \<Rightarrow> string \<Rightarrow> string \<Rightarrow> event list
     \<Rightarrow> (error + Target) \<times> event list" where
  "CreateWorktree_locked E m branch opts trackMode worktreePath h =
     (let h1 = (if \<not> NoFetch opts
                then snd (perform E (GitCommand (RepoMainRoot (repoCtx m)) [''fetch'', ''origin'']) h)
                else h)
      in (case CreateWorktree_fromRef E m opts h1 of
            Inl err \<Rightarrow> (Inl err, h1)
          | Inr fromRef \<Rightarrow>
         (case refExists m (view E h1) (plumbingRemoteBranchRef ''origin'' branch) of
            Inl err \<Rightarrow> (Inl err, h1)
          | Inr remoteExists \<Rightarrow>
         (case refExists m (view E h1) (plumbingLocalBranchRef branch) of
            Inl err \<Rightarrow> (Inl err, h1)
          | Inr localExists \<Rightarrow>
              let forceFlag = (if Force opts then [''--force''] else [])
              in (case CreateWorktree_add E m trackMode forceFlag worktreePath branch fromRef
                        remoteExists localExists h1 of
                    (Some err, h2) \<Rightarrow> (Inl err, h2)
                  | (None, h2) \<Rightarrow>
                      (case (if \<not> NoCopy opts then copyIntoWorktree E m worktreePath h2
                             else (None, h2)) of
                         (Some err, h3) \<Rightarrow> (Inl err, h3)
                       | (None, h3) \<Rightarrow>
                           (case runHooks E ''wr'' m ''postCreate'' worktreePath
                                   [''REPO_ROOT='' @ RepoMainRoot (repoCtx m),
                                    ''WORKTREE_PATH='' @ worktreePath,
                                    ''BRANCH='' @ branch] h3 of
                              (Some err, h4) \<Rightarrow> (Inl err, h4)
                            | (None, h4) \<Rightarrow>
                                (Inr \<lparr>IsMain = False, TargetPath = worktreePath,
                                      TargetBranch = branch\<rparr>, h4))))))))"

definition CreateWorktree ::
  "env \<Rightarrow> Manager \<Rightarrow> string \<Rightarrow> CreateWorktreeOptions \<Rightarrow> event list
     \<Rightarrow> (error + Target) \<times> event list" where
  "CreateWorktree E m branch opts h =
     (if branch = [] then (Inl (ErrorString ''branch name required''), h)
      else if Force opts \<and> NameSuffix opts = [] then (Inl ErrForceRequiresName, h)
      else
        let trackMode = (if TrackMode opts = [] then TrackModeAuto else TrackMode opts)
        in if \<not> (trackMode = TrackModeAuto \<or> trackMode = TrackModeRemote
                  \<or> trackMode = TrackModeLocal \<or> trackMode = TrackModeNone)
             then (Inl (Wrapped trackMode ErrInvalidTrackMode), h)
           else
             (case ResolvePaths (view E h) (cfg m) of
                Inl err \<Rightarrow> (Inl err, h)
              | Inr paths \<Rightarrow>
                  let worktreeName0 = SanitizeBranchName branch;
                      worktreeName = (if NameSuffix opts \<noteq> []
                                      then worktreeName0 @ ''-'' @ NameSuffix opts
                                      else worktreeName0);
                      worktreePath = Join [BaseDir paths, Prefix paths @ worktreeName]
                  in (case Stat (view E h) worktreePath of
                        Inr info \<Rightarrow>
                          (Inl (ErrorString (''worktree already exists at '' @ worktreePath)), h)
                      | Inl statErr \<Rightarrow>
                          (case perform E (MkdirAll (BaseDir paths)) h of
                             (Some err, h1) \<Rightarrow>
                               (Inl (Wrapped (''create worktrees base dir '' @ BaseDir paths) err),
                                h1)
                           | (None, h1) \<Rightarrow>
                               let lockPath = Join [CommonDir (repoCtx m), ''wr.lock'']
                               in (case Acquire (locks E h1) (caller_ctx E) lockPath 30000 of
                                     Inl err \<Rightarrow> (Inl err, h1)
                                   | Inr l \<Rightarrow>
                                       (case CreateWorktree_locked E m branch opts trackMode
                                               worktreePath (h1 @ [LockAcquired lockPath]) of
                                          (res, h2) \<Rightarrow>
                                            (res, h2 @ [LockReleased lockPath])))))))"

subsection \<open>Copy\<close>

record CopyOptions =
  From :: string
  CopyAll :: bool
  CopyDryRun :: bool
  Patterns :: "string list"
  CopyPreservePaths :: bool

record CopyResult =
  CopyTarget :: Target
  CopyCopiedFiles :: "string list"

text \<open>The destinations for \<open>All\<close>: every listed worktree but the main repository, the missing
  and prunable ones, and the source.\<close>

fun Copy_allTargets :: "Target \<Rightarrow> ListEntry list \<Rightarrow> Target list" where
  "Copy_allTargets src [] = []"
| "Copy_allTargets src (e # es) =
     (if IsMain (EntryTarget e) then Copy_allTargets src es
      else if Status e = WorktreeStatusMissing \<or> Status e = WorktreeStatusPrunable
        then Copy_allTargets src es
      else if TargetPath (EntryTarget e) = TargetPath src then Copy_allTargets src es
      else EntryTarget e # Copy_allTargets src es)"

text \<open>The destinations named by identifiers, resolved one after the other.\<close>

fun Copy_namedTargets :: "Manager \<Rightarrow> world \<Rightarrow> Target \<Rightarrow> string list \<Rightarrow> error + Target list" where
  "Copy_namedTargets m w src [] = Inr []"
| "Copy_namedTargets m w src (ident # ids) =
     (case ResolveTarget m w ident of
        Inl err \<Rightarrow> Inl err
      | Inr tgt \<Rightarrow>
          (case Copy_namedTargets m w src ids of
             Inl err \<Rightarrow> Inl err
           | Inr rest \<Rightarrow> (if TargetPath tgt = TargetPath src then Inr rest else Inr (tgt # rest))))"

text \<open>The loop that copies into each destination.\<close>

fun Copy_loop ::
  "env \<Rightarrow> Target \<Rightarrow> string list \<Rightarrow> string list \<Rightarrow> Options \<Rightarrow> Target list \<Rightarrow> CopyResult list
     \<Rightarrow> event list \<Rightarrow> (error + CopyResult list) \<times> event list" where
  "Copy_loop E src includes excludes copts [] results h = (Inr results, h)"
| "Copy_loop E src includes excludes copts (dst # dsts) results h =
     (case CopyFiles_effect E (TargetPath src) (TargetPath dst) includes excludes copts h of
        (Inl err, h1) \<Rightarrow> (Inl err, h1)
      | (Inr res, h1) \<Rightarrow>
          Copy_loop E src includes excludes copts dsts
            (results @ [\<lparr>CopyTarget = dst, CopyCopiedFiles = CopiedFiles res\<rparr>]) h1)"

definition Copy ::
  "env \<Rightarrow> Manager \<Rightarrow> string list \<Rightarrow> CopyOptions \<Rightarrow> event list
     \<Rightarrow> (error + CopyResult list) \<times> event list" where
  "Copy E m targets opts h =
     (let w = view E h;
          sourceID = (if From opts = [] then ''1'' else From opts)
      in (case ResolveTarget m w sourceID of
            Inl err \<Rightarrow> (Inl err, h)
          | Inr src \<Rightarrow>
         (case (if length (Patterns opts) = 0 then
                  (case All (cfg m) w ''gtr.copy.include'' ''copy.include'' of
                     Inl err \<Rightarrow> Inl err
                   | Inr cfgIncludes \<Rightarrow>
                       (case WorktreeIncludePatterns (cfg m) w of
                          Inl err \<Rightarrow> Inl err
                        | Inr fileIncludes \<Rightarrow> Inr (cfgIncludes @ fileIncludes)))
                else Inr (Patterns opts)) of
            Inl err \<Rightarrow> (Inl err, h)
          | Inr includes \<Rightarrow>
              if length includes = 0 then (Inl ErrNoPatterns, h)
              else
                (case All (cfg m) w ''gtr.copy.exclude'' ''copy.exclude'' of
                   Inl err \<Rightarrow> (Inl err, h)
                 | Inr excludes \<Rightarrow>
                     (case (if CopyAll opts then
                              (case List m w of
                                 Inl err \<Rightarrow> Inl err
                               | Inr entries \<Rightarrow> Inr (Copy_allTargets src entries))
                            else if length targets = 0
                              then Inl (ErrorString ''no targets specified'')
                            else Copy_namedTargets m w src targets) of
                        Inl err \<Rightarrow> (Inl err, h)
                      | Inr destTargets \<Rightarrow>
                          Copy_loop E src includes excludes
                            \<lparr>PreservePaths = CopyPreservePaths opts, DryRun = CopyDryRun opts\<rparr>
                            destTargets [] h)))))"

subsection \<open>The operations that only read, or only start a process\<close>

text \<open>\<open>List\<close> and \<open>ResolveTarget\<close> are functions of the world alone, and the command \<open>go\<close>
  is \<open>ResolveTarget\<close> followed by printing: run after the events \<open>h\<close>, they read the world
  of that moment and add no event.\<close>

definition reading :: "env \<Rightarrow> (world \<Rightarrow> 'a) \<Rightarrow> event list \<Rightarrow> 'a \<times> event list" where
  "reading E f h = (f (view E h), h)"

record RunOptions =
  RunEnv :: "string list"

definition Run ::
  "env \<Rightarrow> Manager \<Rightarrow> string \<Rightarrow> string list \<Rightarrow> RunOptions \<Rightarrow> event list
     \<Rightarrow> (int \<times> error option) \<times> event list" where
  "Run E m identifier argv opts h =
     (if length argv = 0 then ((1, Some (ErrorString ''no command specified'')), h)
      else
        (case ResolveTarget m (view E h) identifier of
           Inl err \<Rightarrow> ((1, Some err), h)
         | Inr target \<Rightarrow>
             let cmd = CommandRun (TargetPath target) argv
             in (case exit_status E h cmd of
                   Exited out errout code \<Rightarrow> ((code, None), h @ [cmd])
                 | Interrupted err \<Rightarrow> ((1, Some err), h @ [cmd])
                 | NotStarted err \<Rightarrow> ((1, Some err), h @ [cmd]))))"

text \<open>The end of \<open>adapters.Exec\<close> for a command that is run and waited for.\<close>

definition Exec_wait :: "proc \<Rightarrow> int \<times> error option" where
  "Exec_wait p =
     (case p of
        Exited out errout code \<Rightarrow> (if code = 0 then (0, None) else (code, Some (ProcessExit code)))
      | Interrupted err \<Rightarrow> (1, Some err)
      | NotStarted err \<Rightarrow> (1, Some err))"

definition adapters_Exec ::
  "env \<Rightarrow> Spec \<Rightarrow> event list \<Rightarrow> (int \<times> error option) \<times> event list" where
  "adapters_Exec E spec h =
     (let cmd = AdapterExec (Command spec) (Args spec) (SpecDir spec)
      in if SpecMode spec = ModeStart then
           (case exit_status E h cmd of
              NotStarted err \<Rightarrow> ((1, Some err), h @ [cmd])
            | Exited out errout code \<Rightarrow> ((0, None), h @ [cmd])
            | Interrupted err \<Rightarrow> ((0, None), h @ [cmd]))
         else if SpecName spec = ''cursor'' \<and> Base (Command spec) = ''cursor''
                 \<and> length (Args spec) > 0 \<and> hd (Args spec) = ''cli'' then
           (let cmdFallback = AdapterExec (Command spec) (tl (Args spec)) (SpecDir spec)
            in (case exit_status E h cmd of
                  Interrupted err \<Rightarrow> ((1, Some err), h @ [cmd])
                | NotStarted err \<Rightarrow> ((1, Some err), h @ [cmd])
                | Exited out errout code \<Rightarrow>
                    if code = 0 then ((0, None), h @ [cmd])
                    else (Exec_wait (exit_status E (h @ [cmd]) cmdFallback),
                          h @ [cmd] @ [cmdFallback])))
         else (Exec_wait (exit_status E h cmd), h @ [cmd]))"

definition ensureCommandExists :: "env \<Rightarrow> event list \<Rightarrow> Spec \<Rightarrow> error + Spec" where
  "ensureCommandExists E h spec =
     (if IsAbs (Command spec) then Inr spec
      else (case LookPath E h (Command spec) of
              Inl err \<Rightarrow> Inl err
            | Inr p \<Rightarrow> Inr (spec\<lparr>Command := p\<rparr>)))"

definition OpenEditor ::
  "env \<Rightarrow> Manager \<Rightarrow> string \<Rightarrow> string \<Rightarrow> event list \<Rightarrow> (int \<times> error option) \<times> event list" where
  "OpenEditor E m identifier editorOverride h =
     (case ResolveTarget m (view E h) identifier of
        Inl err \<Rightarrow> ((1, Some err), h)
      | Inr target \<Rightarrow>
          (case (if editorOverride = [] then
                   Default (cfg m) (view E h) ''gtr.editor.default'' ''GTR_EDITOR_DEFAULT''
                     ''none'' ''defaults.editor''
                 else Inr editorOverride) of
             Inl err \<Rightarrow> ((1, Some err), h)
           | Inr editor \<Rightarrow>
               if editor = ''none'' \<or> editor = [] then
                 (case perform E (OpenInGUI (TargetPath target)) h of
                    (Some err, h1) \<Rightarrow> ((1, Some err), h1)
                  | (None, h1) \<Rightarrow> ((0, None), h1))
               else
                 (case ResolveEditor E h editor (TargetPath target) of
                    Inl err \<Rightarrow> ((1, Some err), h)
                  | Inr spec0 \<Rightarrow>
                      (case ensureCommandExists E h spec0 of
                         Inl err \<Rightarrow> ((1, Some err), h)
                       | Inr spec \<Rightarrow> adapters_Exec E spec h))))"

definition RunAI ::
  "env \<Rightarrow> Manager \<Rightarrow> string \<Rightarrow> string \<Rightarrow> string list \<Rightarrow> event list
     \<Rightarrow> (int \<times> error option) \<times> event list" where
  "RunAI E m identifier toolOverride args h =
     (case ResolveTarget m (view E h) identifier of
        Inl err \<Rightarrow> ((1, Some err), h)
      | Inr target \<Rightarrow>
          (case (if toolOverride = [] then
                   Default (cfg m) (view E h) ''gtr.ai.default'' ''GTR_AI_DEFAULT''
                     ''none'' ''defaults.ai''
                 else Inr toolOverride) of
             Inl err \<Rightarrow> ((1, Some err), h)
           | Inr tool \<Rightarrow>
               if tool = ''none'' \<or> tool = [] then ((1, Some ErrNoAIToolConfigured), h)
               else
                 (case ResolveAI E h tool (TargetPath target) args of
                    Inl err \<Rightarrow> ((1, Some err), h)
                  | Inr spec0 \<Rightarrow>
                      (case ensureCommandExists E h spec0 of
                         Inl err \<Rightarrow> ((1, Some err), h)
                       | Inr spec \<Rightarrow> adapters_Exec E spec h))))"

subsection \<open>The lock discipline\<close>

text \<open>A list of events without lock events; and a list of events that is empty or begins by
  taking the lock \<open>p\<close>, ends by releasing it, and has no other lock event: everything the
  operation does, it does while it holds \<open>p\<close>.\<close>

definition lock_free :: "event list \<Rightarrow> bool" where
  "lock_free tr = (filter lock_event tr = [])"

definition under_lock :: "string \<Rightarrow> event list \<Rightarrow> bool" where
  "under_lock p tr =
     (case tr of
        [] \<Rightarrow> True
      | e # rest \<Rightarrow>
          e = LockAcquired p \<and> rest \<noteq> [] \<and> last rest = LockReleased p \<and> lock_free (butlast rest))"

text \<open>\<open>h'\<close> continues \<open>h\<close> without touching a lock.\<close>

definition continues :: "event list \<Rightarrow> event list \<Rightarrow> bool" where
  "continues h h' = (\<exists>tr. h' = h @ tr \<and> lock_free tr)"

text \<open>What \<open>CreateWorktree\<close> emits: nothing, or the creation of the base directory followed
  by a section under the lock.\<close>

fun is_MkdirAll :: "event \<Rightarrow> bool" where
  "is_MkdirAll (MkdirAll p) = True"
| "is_MkdirAll e = False"

definition mkdir_then_under_lock :: "string \<Rightarrow> event list \<Rightarrow> bool" where
  "mkdir_then_under_lock p tr =
     (case tr of [] \<Rightarrow> True | e # rest \<Rightarrow> is_MkdirAll e \<and> under_lock p rest)"

section \<open>Concrete worlds\<close>

text \<open>A world in which no file exists, no variable is set and \<open>git\<close> exits with status 1
  without output. The worlds below change it where they need something to be there.\<close>

definition nothing_world :: world where
  "nothing_world =
     \<lparr>ctx_Err = None,
      Getwd = Inr ''/'',
      EvalSymlinks = (\<lambda>p. Inl (PathError ''lstat'' p ErrNotExist)),
      Stat = (\<lambda>p. Inl (PathError ''stat'' p ErrNotExist)),
      ReadDir = (\<lambda>p. Inl (PathError ''open'' p ErrNotExist)),
      ReadFile = (\<lambda>p. Inl (PathError ''open'' p ErrNotExist)),
      UserHomeDir = Inr ''/home/u'',
      LookupEnv = (\<lambda>k. None),
      git_process = (\<lambda>dir args. Exited [] [] 1),
      Glob = (\<lambda>root pat. Inr []),
      Match = (\<lambda>pat name. Inr False),
      StatFS = (\<lambda>root name. Inl (PathError ''stat'' name ErrNotExist)),
      copyFile_result = (\<lambda>src dst. None)\<rparr>"

text \<open>A source tree \<open>/src\<close> with the two regular files \<open>a.env\<close> and \<open>b.env\<close>; patterns
  without wildcards match their own name.\<close>

definition env_files_world :: world where
  "env_files_world =
     nothing_world
       \<lparr>Glob := (\<lambda>root pat. if root = ''/src'' \<and> pat = ''*.env''
                              then Inr [''a.env'', ''b.env''] else Inr []),
        Match := (\<lambda>pat name. Inr (pat = name)),
        StatFS := (\<lambda>root name. if root = ''/src'' \<and> (name = ''a.env'' \<or> name = ''b.env'')
                                then Inr False
                                else Inl (PathError ''stat'' name ErrNotExist))\<rparr>"

text \<open>The same tree, seen by a pattern list that starts with the malformed pattern \<open>[\<close>:
  \<open>doublestar.Glob\<close> validates the pattern first and returns \<open>ErrBadPattern\<close>.\<close>

definition bad_pattern_world :: world where
  "bad_pattern_world =
     env_files_world
       \<lparr>Glob := (\<lambda>root pat. if pat = ''['' then Inl ErrBadPattern else Glob env_files_world root pat)\<rparr>"

definition preserve_opts :: Options where
  "preserve_opts = \<lparr>PreservePaths = True, DryRun = False\<rparr>"

definition dry_opts :: Options where
  "dry_opts = \<lparr>PreservePaths = True, DryRun = True\<rparr>"


definition repo_resolver :: Resolver where
  "repo_resolver = \<lparr>MainRoot = ''/r'', Env = None\<rparr>"

text \<open>Another process holds every lock file for good.\<close>

definition held_world :: lock_world where
  "held_world = \<lparr>TryLock = (\<lambda>path t. LockBusy)\<rparr>"

text \<open>Worlds given by a table of files: a path exists when the table lists it, as a directory
  or as a regular file with its contents; there are no symbolic links, so every existing path
  resolves to itself. A directory's entries are the table's paths right below it, in the
  order of the table.\<close>

datatype node = Directory | Regular string

definition fs_world :: "(string \<times> node) list \<Rightarrow> world" where
  "fs_world tbl =
     nothing_world
       \<lparr>EvalSymlinks := (\<lambda>p. case map_of tbl p of
                                None \<Rightarrow> Inl (PathError ''lstat'' p ErrNotExist)
                              | Some n \<Rightarrow> Inr p),
        Stat := (\<lambda>p. case map_of tbl p of
                        None \<Rightarrow> Inl (PathError ''stat'' p ErrNotExist)
                      | Some n \<Rightarrow> Inr (n = Directory)),
        ReadDir := (\<lambda>p. case map_of tbl p of
                           None \<Rightarrow> Inl (PathError ''open'' p ErrNotExist)
                         | Some (Regular c) \<Rightarrow> Inl (PathError ''readdirent'' p (ErrOS ''ENOTDIR''))
                         | Some Directory \<Rightarrow>
                             Inr (map (\<lambda>(q, n). (Base q, n = Directory))
                                    (filter (\<lambda>(q, n). q \<noteq> p \<and> Dir q = p) tbl))),
        ReadFile := (\<lambda>p. case map_of tbl p of
                            None \<Rightarrow> Inl (PathError ''open'' p ErrNotExist)
                          | Some Directory \<Rightarrow> Inl (PathError ''read'' p (ErrOS ''EISDIR''))
                          | Some (Regular c) \<Rightarrow> Inr c)\<rparr>"

definition repo_manager :: Manager where
  "repo_manager =
     \<lparr>repoCtx = \<lparr>StartDir = ''/r'', WorktreeRoot = ''/r'', CommonDir = ''/r/.git'',
                  RepoMainRoot = ''/r''\<rparr>,
      cfg = repo_resolver,
      yes = False\<rparr>"

text \<open>A repository at \<open>/r\<close> on branch \<open>main\<close> with the default layout: two linked worktrees
  under \<open>/r-worktrees\<close>, for the branches \<open>1\<close> and \<open>foo\<close>, and beside them a directory
  \<open>orphan\<close> that no metadata mentions and that is not inside any repository.\<close>

definition linked_world :: world where
  "linked_world =
     fs_world
       [(''/r'', Directory),
        (''/r/.git'', Directory),
        (''/r/.git/HEAD'', Regular ''ref: refs/heads/main\<newline>''),
        (''/r/.git/worktrees'', Directory),
        (''/r/.git/worktrees/1'', Directory),
        (''/r/.git/worktrees/1/HEAD'', Regular ''ref: refs/heads/1\<newline>''),
        (''/r/.git/worktrees/1/gitdir'', Regular ''/r-worktrees/1/.git\<newline>''),
        (''/r/.git/worktrees/foo'', Directory),
        (''/r/.git/worktrees/foo/HEAD'', Regular ''ref: refs/heads/foo\<newline>''),
        (''/r/.git/worktrees/foo/gitdir'', Regular ''/r-worktrees/foo/.git\<newline>''),
        (''/r-worktrees'', Directory),
        (''/r-worktrees/1'', Directory),
        (''/r-worktrees/1/.git'', Regular ''gitdir: /r/.git/worktrees/1\<newline>''),
        (''/r-worktrees/foo'', Directory),
        (''/r-worktrees/foo/.git'', Regular ''gitdir: /r/.git/worktrees/foo\<newline>''),
        (''/r-worktrees/orphan'', Directory)]
       \<lparr>git_process := (\<lambda>dir args.
          if hd args = ''config'' then Exited [] [] 1
          else if dir = ''/r-worktrees/orphan''
            then Exited [] ''fatal: not a git repository'' 128
          else Exited [] [] 1)\<rparr>"

text \<open>The same repository configured with \<open>gtr.worktrees.dir = .worktrees\<close>, so that the base
  directory lies inside the main working tree; it holds one directory \<open>tmp\<close> that no metadata
  mentions. Asked there, \<open>git\<close> finds the main repository and reports its branch.\<close>

definition inside_world :: world where
  "inside_world =
     fs_world
       [(''/r'', Directory),
        (''/r/.git'', Directory),
        (''/r/.git/HEAD'', Regular ''ref: refs/heads/main\<newline>''),
        (''/r/.worktrees'', Directory),
        (''/r/.worktrees/tmp'', Directory)]
       \<lparr>git_process := (\<lambda>dir args.
          if args = [''config'', ''--local'', ''--get'', ''gtr.worktrees.dir'']
            then Exited ''.worktrees\<newline>'' [] 0
          else if hd args = ''config'' then Exited [] [] 1
          else if args = [''branch'', ''--show-current''] then Exited ''main\<newline>'' [] 0
          else Exited [] [] 1)\<rparr>"

text \<open>What the enumerator and \<open>List\<close> give in \<open>linked_world\<close>.\<close>

definition linked_rows :: "PorcelainEntry list" where
  "linked_rows =
     [\<lparr>Path = ''/r'', Branch = ''main'', Detached = False, Locked = False, Prunable = False\<rparr>,
      \<lparr>Path = ''/r-worktrees/1'', Branch = ''1'', Detached = False, Locked = False,
         Prunable = False\<rparr>,
      \<lparr>Path = ''/r-worktrees/foo'', Branch = ''foo'', Detached = False, Locked = False,
         Prunable = False\<rparr>]"

definition orphan_entry :: ListEntry where
  "orphan_entry =
     \<lparr>EntryTarget = \<lparr>IsMain = False, TargetPath = ''/r-worktrees/orphan'',
                       TargetBranch = ''(detached)''\<rparr>,
      Status = WorktreeStatusMissing\<rparr>"

definition linked_entries :: "ListEntry list" where
  "linked_entries =
     [\<lparr>EntryTarget = \<lparr>IsMain = True, TargetPath = ''/r'', TargetBranch = ''main''\<rparr>,
        Status = WorktreeStatusOK\<rparr>,
      orphan_entry,
      \<lparr>EntryTarget = \<lparr>IsMain = False, TargetPath = ''/r-worktrees/1'', TargetBranch = ''1''\<rparr>,
        Status = WorktreeStatusOK\<rparr>,
      \<lparr>EntryTarget = \<lparr>IsMain = False, TargetPath = ''/r-worktrees/foo'', TargetBranch = ''foo''\<rparr>,
        Status = WorktreeStatusOK\<rparr>]"

text \<open>What they give in \<open>inside_world\<close>.\<close>

definition inside_rows :: "PorcelainEntry list" where
  "inside_rows =
     [\<lparr>Path = ''/r'', Branch = ''main'', Detached = False, Locked = False, Prunable = False\<rparr>]"

definition tmp_entry :: ListEntry where
  "tmp_entry =
     \<lparr>EntryTarget = \<lparr>IsMain = False, TargetPath = ''/r/.worktrees/tmp'',
                       TargetBranch = ''main''\<rparr>,
      Status = WorktreeStatusMissing\<rparr>"

definition inside_entries :: "ListEntry list" where
  "inside_entries =
     [\<lparr>EntryTarget = \<lparr>IsMain = True, TargetPath = ''/r'', TargetBranch = ''main''\<rparr>,
        Status = WorktreeStatusOK\<rparr>,
      tmp_entry]"

text \<open>The repository of \<open>linked_world\<close> with one regular file \<open>a.env\<close> at the root of the
  main working tree.\<close>

definition copy_world :: world where
  "copy_world =
     linked_world
       \<lparr>Glob := (\<lambda>root pat. if root = ''/r'' \<and> pat = ''*.env'' then Inr [''a.env''] else Inr []),
        StatFS := (\<lambda>root name. if root = ''/r'' \<and> name = ''a.env'' then Inr False
                                else Inl (PathError ''stat'' name ErrNotExist))\<rparr>"

text \<open>Nobody holds a lock file.\<close>

definition free_locks :: lock_world where
  "free_locks = \<lparr>TryLock = (\<lambda>path t. LockTaken)\<rparr>"

text \<open>An environment in which every effect succeeds and the queries keep seeing
  \<open>copy_world\<close>.\<close>

definition quiet_env :: env where
  "quiet_env =
     \<lparr>view = (\<lambda>h. copy_world),
      locks = (\<lambda>h. free_locks),
      caller_ctx = None,
      outcome = (\<lambda>h e. None),
      exit_status = (\<lambda>h e. Exited [] [] 0),
      DefaultBranchAuto = (\<lambda>h. Inr ''main''),
      ResolveEditor = (\<lambda>h name path. Inl (ErrorString ''no editor'')),
      ResolveAI = (\<lambda>h name dir args. Inl (ErrorString ''no tool'')),
      LookPath = (\<lambda>h name. Inl (ErrorString ''not found''))\<rparr>"

definition copy_all_opts :: CopyOptions where
  "copy_all_opts =
     \<lparr>From = [], CopyAll = True, CopyDryRun = False, Patterns = [''*.env''],
      CopyPreservePaths = True\<rparr>"

definition remove_opts :: RemoveWorktreeOptions where
  "remove_opts =
     \<lparr>DeleteBranch = False, RemoveForce = False, Yes = False, ConfirmDeleteBranch = None\<rparr>"

definition create_opts :: CreateWorktreeOptions where
  "create_opts =
     \<lparr>FromRef = ''main'', FromCurrent = False, TrackMode = [], NoCopy = True, NoFetch = True,
      Force = False, NameSuffix = []\<rparr>"

text \<open>The events of three calls in \<open>quiet_env\<close>.\<close>

definition copy_all_events :: "event list" where
  "copy_all_events =
     [CopyFilesCall ''/r'' ''/r-worktrees/1'' False,
      CopyFilesCall ''/r'' ''/r-worktrees/foo'' False]"

definition create_bar_events :: "event list" where
  "create_bar_events =
     [MkdirAll ''/r-worktrees'',
      LockAcquired ''/r/.git/wr.lock'',
      GitCommand ''/r'' [''worktree'', ''add'', ''/r-worktrees/bar'', ''-b'', ''bar'', ''main''],
      LockReleased ''/r/.git/wr.lock'']"

definition remove_foo_events :: "event list" where
  "remove_foo_events =
     [LockAcquired ''/r/.git/gtr.lock'',
      GitCommand ''/r'' [''worktree'', ''remove'', ''/r-worktrees/foo''],
      LockReleased ''/r/.git/gtr.lock'']"


section \<open>Facts about strings and paths\<close>

lemma HasPrefix_prefix: "HasPrefix s p = prefix p s"
  by (induction s p rule: HasPrefix.induct) auto

lemma HasSuffix_suffix: "HasSuffix s p = suffix p s"
  by (simp add: HasSuffix_def HasPrefix_prefix suffix_to_prefix)

lemma HasSuffix_Cons: "HasSuffix (c # cs) suf = (c # cs = suf \<or> HasSuffix cs suf)"
  by (auto simp: HasSuffix_suffix suffix_Cons)

lemma Split_not_Nil [simp]: "Split s c \<noteq> []"
  by (induction s) (auto split: list.splits)

text \<open>The equation of \<open>Split\<close> with head and tail, which the proofs below rewrite with; the
  defining equation is put back afterwards.\<close>

lemma Split_Cons:
  "Split (c # cs) sep =
     (if c = sep then [] # Split cs sep else (c # hd (Split cs sep)) # tl (Split cs sep))"
  by (cases "Split cs sep") auto

declare Split.simps(2) [simp del]
declare Split_Cons [simp]

lemma hd_Split: "hd (Split s c) = takeWhile (\<lambda>x. x \<noteq> c) s"
  by (induction s) auto

lemma dotdot_first_element:
  "(takeWhile (\<lambda>x. x \<noteq> CHR ''/'') p = ''..'') = (p = ''..'' \<or> HasPrefix p ''../'')"
proof (cases p)
  case Nil
  then show ?thesis by simp
next
  case p: (Cons a q)
  show ?thesis
  proof (cases q)
    case Nil
    with p show ?thesis by auto
  next
    case q: (Cons b r)
    show ?thesis
    proof (cases r)
      case Nil
      with p q show ?thesis by auto
    next
      case (Cons c t)
      with p q show ?thesis by auto
    qed
  qed
qed

lemma dotdot_in_Split:
  "(''..'' \<in> set (Split p CHR ''/'')) =
     ((p = ''..'' \<or> HasPrefix p ''../'') \<or> ''..'' \<in> set (tl (Split p CHR ''/'')))"
  by (cases "Split p CHR ''/''")
     (auto simp: dotdot_first_element [symmetric] hd_Split [symmetric])

lemma dotdot_later_element:
  "(''..'' \<in> set (tl (Split p CHR ''/''))) = (Contains p ''/../'' \<or> HasSuffix p ''/..'')"
proof (induction p)
  case Nil
  then show ?case by (simp add: HasSuffix_def)
next
  case (Cons c cs)
  show ?case
  proof (cases "c = CHR ''/''")
    case True
    then show ?thesis using Cons dotdot_in_Split [of cs]
      by (auto simp: HasSuffix_Cons)
  next
    case False
    then show ?thesis using Cons
      by (auto simp: HasSuffix_Cons)
  qed
qed

lemma has_dotdot_element_iff:
  "has_dotdot_element p =
     (HasPrefix p ''../'' \<or> p = ''..'' \<or> Contains p ''/../'' \<or> HasSuffix p ''/..'')"
  unfolding has_dotdot_element_def
  by (subst dotdot_in_Split) (auto simp: dotdot_later_element)

lemma Split_append_nosep:
  "c \<notin> set ws \<Longrightarrow> Split (ws @ t) c = (ws @ hd (Split t c)) # tl (Split t c)"
  by (induction ws) auto

lemma Split_snoc:
  "Split (a @ [x]) c =
     (if x = c then Split a c @ [[]] else butlast (Split a c) @ [last (Split a c) @ [x]])"
proof (induction a)
  case Nil
  then show ?case by simp
next
  case (Cons y ys)
  have ne: "Split ys c \<noteq> []" by simp
  have ne2: "Split (ys @ [x]) c \<noteq> []" by simp
  show ?case
  proof (cases "x = c")
    case True
    then show ?thesis using Cons ne by (simp add: hd_append)
  next
    case False
    then show ?thesis using Cons ne
      apply (simp add: hd_append butlast_append)
      apply (cases "Split ys c")
       apply simp
      apply (simp split: if_splits)
      done
  qed
qed


lemma Split_rev: "Split (rev s) c = rev (map rev (Split s c))"
proof (induction s)
  case Nil
  then show ?case by simp
next
  case (Cons x xs)
  have ne: "Split xs c \<noteq> []" by simp
  then obtain h t where ht: "Split xs c = h # t" by (cases "Split xs c") auto
  show ?case
  proof (cases "x = c")
    case True
    then show ?thesis using Cons by (simp add: Split_snoc)
  next
    case False
    then show ?thesis using Cons ht by (simp add: Split_snoc)
  qed
qed

lemma has_dotdot_element_rev: "has_dotdot_element (rev s) = has_dotdot_element s"
proof -
  have "(''..'' \<in> rev ` set (Split s CHR ''/'')) = (''..'' \<in> set (Split s CHR ''/''))"
  proof
    assume "''..'' \<in> rev ` set (Split s CHR ''/'')"
    then obtain e where e: "e \<in> set (Split s CHR ''/'')" "''..'' = rev e" by auto
    from e(2) have "rev ''..'' = e" by (metis rev_rev_ident)
    then show "''..'' \<in> set (Split s CHR ''/'')" using e(1) by simp
  next
    assume "''..'' \<in> set (Split s CHR ''/'')"
    then have "rev ''..'' \<in> rev ` set (Split s CHR ''/'')" by (rule imageI)
    then show "''..'' \<in> rev ` set (Split s CHR ''/'')" by simp
  qed
  then show ?thesis
    by (simp add: has_dotdot_element_def Split_rev)
qed


lemma has_dotdot_element_dropWhile:
  assumes h: "has_dotdot_element p"
  shows "has_dotdot_element (dropWhile isSpace p)"
proof -
  define ws where "ws = takeWhile isSpace p"
  define t where "t = dropWhile isSpace p"
  have p: "p = ws @ t" by (simp add: ws_def t_def)
  have sp: "\<forall>c\<in>set ws. isSpace c" unfolding ws_def by (auto dest: set_takeWhileD)
  have "\<not> isSpace CHR ''/''" by (simp add: isSpace_def)
  then have nosep: "CHR ''/'' \<notin> set ws" using sp by blast
  have "\<not> isSpace CHR ''.''" by (simp add: isSpace_def)
  then have nodot: "CHR ''.'' \<notin> set ws" using sp by blast
  obtain e es where split: "Split t CHR ''/'' = e # es"
    by (cases "Split t CHR ''/''") auto
  from h have "''..'' \<in> set ((ws @ e) # es)"
    unfolding has_dotdot_element_def p Split_append_nosep [OF nosep] split by simp
  then have "''..'' = ws @ e \<or> ''..'' \<in> set es" by auto
  then have "''..'' \<in> set (e # es)"
  proof
    assume eq: "''..'' = ws @ e"
    have "ws = []"
    proof (cases ws)
      case Nil then show ?thesis .
    next
      case (Cons a as)
      with eq have "a = CHR ''.''" by simp
      with Cons nodot show ?thesis by simp
    qed
    with eq show ?thesis by simp
  next
    assume "''..'' \<in> set es"
    then show ?thesis by simp
  qed
  then show ?thesis by (simp add: has_dotdot_element_def t_def [symmetric] split)
qed

lemma has_dotdot_element_TrimSpace:
  "has_dotdot_element p \<Longrightarrow> has_dotdot_element (TrimSpace p)"
  unfolding TrimSpace_def
  by (simp add: has_dotdot_element_rev has_dotdot_element_dropWhile)

lemma IsAbs_TrimSpace:
  assumes "IsAbs p"
  shows "IsAbs (TrimSpace p)"
proof -
  from assms obtain q where p: "p = CHR ''/'' # q" by (cases p) (auto simp: IsAbs_def)
  have ns: "\<not> isSpace CHR ''/''" by (simp add: isSpace_def)
  have "TrimSpace p = rev (dropWhile isSpace (rev q @ [CHR ''/'']))"
    using ns by (simp add: TrimSpace_def p)
  also have "\<dots> = CHR ''/'' # rev (dropWhile isSpace (rev q))"
    using ns by (simp add: dropWhile_append3)
  finally show ?thesis by (simp add: IsAbs_def)
qed

lemma unsafe_pattern_TrimSpace: "unsafe_pattern p \<Longrightarrow> unsafe_pattern (TrimSpace p)"
  by (auto simp: unsafe_pattern_def IsAbs_TrimSpace has_dotdot_element_TrimSpace)

lemma unsafe_pattern_not_Nil: "unsafe_pattern p \<Longrightarrow> p \<noteq> []"
  by (auto simp: unsafe_pattern_def IsAbs_def has_dotdot_element_def)

declare Split_Cons [simp del]
declare Split.simps(2) [simp]

text \<open>The four tests of \<open>isSafePattern\<close> find a \<open>..\<close> element wherever it stands.\<close>

lemma isSafePattern_iff: "isSafePattern p = (\<not> unsafe_pattern p)"
  by (auto simp: isSafePattern_def unsafe_pattern_def IsAbs_def has_dotdot_element_iff)


section \<open>Package copy: properties\<close>





lemma CopyFiles_patterns_append:
  "CopyFiles_patterns w src dst exc opts (pre @ post) copied =
     (case CopyFiles_patterns w src dst exc opts pre copied of
        Inl err \<Rightarrow> Inl err
      | Inr copied' \<Rightarrow> CopyFiles_patterns w src dst exc opts post copied')"
  by (induction pre arbitrary: copied) (auto simp: Let_def split: sum.splits)

lemma CopyFiles_patterns_unsafe_head:
  "unsafe_pattern p \<Longrightarrow>
     CopyFiles_patterns w src dst exc opts (p # post) copied =
       Inl (Wrapped (TrimSpace p) ErrUnsafePattern)"
  using unsafe_pattern_TrimSpace [of p] unsafe_pattern_not_Nil [of "TrimSpace p"]
  by (simp add: Let_def isSafePattern_iff)

text \<open>
  Claim C8, as the code has it. \<open>CopyFiles\<close> fails with \<open>ErrNoPatterns\<close> when the include
  list is empty. Patterns are checked one at a time, in list order, each right before it is
  used: when a pattern is absolute or has a \<open>..\<close> element, and the patterns before it
  were handled without an error (there is none, or \<open>CopyFiles\<close> succeeds on them), the
  call fails with an error that wraps \<open>ErrUnsafePattern\<close>.
\<close>

theorem CopyFiles_rejects:
  "CopyFiles w src dst [] exc opts = Inl ErrNoPatterns \<and>
   (unsafe_pattern p \<and> (pre = [] \<or> (\<exists>r. CopyFiles w src dst pre exc opts = Inr r)) \<longrightarrow>
      CopyFiles w src dst (pre @ p # post) exc opts = Inl (Wrapped (TrimSpace p) ErrUnsafePattern) \<and>
      errors_Is (Wrapped (TrimSpace p) ErrUnsafePattern) ErrUnsafePattern)"
proof (intro conjI impI)
  show "CopyFiles w src dst [] exc opts = Inl ErrNoPatterns"
    by (simp add: CopyFiles_def)
next
  assume h: "unsafe_pattern p \<and> (pre = [] \<or> (\<exists>r. CopyFiles w src dst pre exc opts = Inr r))"
  then have "\<exists>c. CopyFiles_patterns w src dst (normalizePatterns exc) opts pre [] = Inr c"
    by (cases "pre = []") (auto simp: CopyFiles_def split: sum.splits if_splits)
  then show "CopyFiles w src dst (pre @ p # post) exc opts
      = Inl (Wrapped (TrimSpace p) ErrUnsafePattern)"
    using h by (auto simp: CopyFiles_def CopyFiles_patterns_append CopyFiles_patterns_unsafe_head
        simp del: CopyFiles_patterns.simps)
next
  show "errors_Is (Wrapped (TrimSpace p) ErrUnsafePattern) ErrUnsafePattern" by simp
qed

theorem CopyFiles_rejects_witness:
  "unsafe_pattern ''../x'' \<and>
   CopyFiles env_files_world ''/src'' ''/dst'' [''*.env''] [] dry_opts
     = Inr \<lparr>CopiedFiles = [''a.env'', ''b.env'']\<rparr> \<and>
   CopyFiles env_files_world ''/src'' ''/dst'' ([''*.env''] @ ''../x'' # []) [] dry_opts
     = Inl (Wrapped ''../x'' ErrUnsafePattern)"
proof -
  have u: "unsafe_pattern ''../x''"
    by (simp add: unsafe_pattern_def has_dotdot_element_def)
  have ok: "CopyFiles env_files_world ''/src'' ''/dst'' [''*.env''] [] dry_opts
     = Inr \<lparr>CopiedFiles = [''a.env'', ''b.env'']\<rparr>"
    by (simp add: CopyFiles_def env_files_world_def nothing_world_def dry_opts_def
        TrimSpace_def isSpace_def isSafePattern_def HasSuffix_def TrimPrefix_def
        appendUnique_def)
  have t: "TrimSpace ''../x'' = ''../x''"
    by (simp add: TrimSpace_def isSpace_def)
  show ?thesis
    using u ok t
      CopyFiles_rejects [of env_files_world "''/src''" "''/dst''" "[]" dry_opts "''../x''"
        "[''*.env'']" "[]"]
    by simp
qed

text \<open>
  Claim C8 as stated fails: with the include list \<open>[, /abs\<close> the malformed first pattern
  makes the call fail with \<open>ErrBadPattern\<close> before the absolute pattern is looked at.
\<close>

theorem CopyFiles_unsafe_counterexample:
  "unsafe_pattern ''/abs'' \<and>
   CopyFiles bad_pattern_world ''/src'' ''/dst'' [''['', ''/abs''] [] preserve_opts
     = Inl ErrBadPattern \<and>
   \<not> errors_Is ErrBadPattern ErrUnsafePattern"
  by (simp add: unsafe_pattern_def IsAbs_def CopyFiles_def bad_pattern_world_def
      TrimSpace_def isSpace_def isSafePattern_def HasSuffix_def)

text \<open>Whatever comes first, a list with an unsafe pattern never makes the loop succeed.\<close>

lemma CopyFiles_unsafe_never_succeeds_aux:
  "\<exists>p\<in>set ps. unsafe_pattern p \<Longrightarrow> \<exists>e. CopyFiles_patterns w src dst exc opts ps copied = Inl e"
proof (induction ps arbitrary: copied)
  case Nil
  then show ?case by simp
next
  case (Cons a ps)
  show ?case
  proof (cases "unsafe_pattern a")
    case True
    then show ?thesis by (simp add: CopyFiles_patterns_unsafe_head del: CopyFiles_patterns.simps)
  next
    case False
    with Cons.prems have "\<exists>p\<in>set ps. unsafe_pattern p" by simp
    then have "\<And>c. \<exists>e. CopyFiles_patterns w src dst exc opts ps c = Inl e"
      by (rule Cons.IH)
    then show ?thesis by (auto simp: Let_def split: sum.splits)
  qed
qed

lemma set_appendUnique [simp]: "set (appendUnique dst v) = insert v (set dst)"
  by (auto simp: appendUnique_def)

lemma excluded_Nil [simp]: "excluded w path [] = False"
  by simp









section \<open>Package config: properties\<close>













section \<open>Package lock: properties\<close>

lemma tryCtx_never_false_without_error: "tryCtx fn c now \<noteq> (False, None)"
proof (induction fn c now rule: tryCtx.induct)
  case (1 fn done_at err now)
  then show ?case by (cases "fn now") auto
qed

lemma tryCtx_held:
  "\<forall>t<done_at. fn t = LockBusy \<Longrightarrow> now < done_at \<Longrightarrow> tryCtx fn (done_at, err) now = (False, Some err)"
proof (induction fn "(done_at, err)" now rule: tryCtx.induct)
  case (1 fn now)
  then show ?case by (auto simp: retryDelay_def)
qed

lemma WithTimeout_not_cancelled:
  "not_cancelled_within ctx timeout \<Longrightarrow> WithTimeout ctx timeout = (timeout, DeadlineExceeded)"
  by (auto simp: not_cancelled_within_def WithTimeout_def split: option.splits)

text \<open>
  Claim C5 asks for \<open>ErrAcquireTimeout\<close> when, within the timeout, the lock is never
  obtained and the caller's context is not done. The code does not do that: the timeout is
  the deadline of the derived context, so \<open>TryLockContext\<close> ends with the error
  \<open>context.DeadlineExceeded\<close>, and \<open>Acquire\<close> returns that error wrapped in
  \<open>acquire lock <path>\<close>, which \<open>errors.Is\<close> does not take for \<open>ErrAcquireTimeout\<close>.
\<close>

theorem Acquire_timeout_error:
  assumes "never_acquired L path timeout" and "not_cancelled_within ctx timeout"
  shows "Acquire L ctx path timeout = Inl (Wrapped path DeadlineExceeded) \<and>
         \<not> errors_Is (Wrapped path DeadlineExceeded) ErrAcquireTimeout"
proof (cases "timeout = 0")
  case True
  then show ?thesis using assms(2)
    by (simp add: Acquire_def WithTimeout_not_cancelled TryLockContext_def)
next
  case False
  then have "tryCtx (TryLock L path) (timeout, DeadlineExceeded) 0 = (False, Some DeadlineExceeded)"
    using assms(1) by (intro tryCtx_held) (auto simp: never_acquired_def)
  then show ?thesis using assms(2) False
    by (simp add: Acquire_def WithTimeout_not_cancelled TryLockContext_def)
qed

theorem Acquire_timeout_error_witness:
  "Acquire held_world None ''/r/.git/gtr.lock'' 250
     = Inl (Wrapped ''/r/.git/gtr.lock'' DeadlineExceeded)"
  using Acquire_timeout_error [of held_world "''/r/.git/gtr.lock''" 250 None]
  by (simp add: never_acquired_def not_cancelled_within_def held_world_def)

text \<open>The branch that returns \<open>ErrAcquireTimeout\<close> is never taken, for any lock file, context
  and timeout.\<close>

lemma Acquire_never_ErrAcquireTimeout:
  "Acquire L ctx path timeout = Inl e \<Longrightarrow> e \<noteq> ErrAcquireTimeout"
  using tryCtx_never_false_without_error [of "TryLock L path" "WithTimeout ctx timeout" 0]
  by (auto simp: Acquire_def TryLockContext_def Let_def split: prod.splits option.splits if_splits)


section \<open>The Manager: listing and resolving\<close>

lemma set_insert_sorted [simp]: "set (insert_sorted lt x xs) = insert x (set xs)"
  by (induction xs) auto

lemma set_sort_Slice [simp]: "set (sort_Slice lt xs) = set xs"
  unfolding sort_Slice_def by (induction xs) auto

lemma index_byPath_None:
  "(index_byPath es byPath p = None) = (byPath p = None \<and> p \<notin> Path ` set es)"
  by (induction es arbitrary: byPath) auto

lemma index_byPath_Some:
  "index_byPath es byPath p = Some e \<Longrightarrow> byPath p = Some e \<or> (e \<in> set es \<and> Path e = p)"
proof (induction es arbitrary: byPath)
  case Nil
  then show ?case by simp
next
  case (Cons a es)
  from Cons.prems have "index_byPath es (byPath(Path a \<mapsto> a)) p = Some e" by simp
  from Cons.IH [OF this] show ?case
    by (cases "Path a = p") auto
qed

lemma index_byPath_Path:
  "index_byPath es Map.empty p = Some e \<Longrightarrow> Path e = p"
  using index_byPath_Some [of es Map.empty p e] by auto

lemma set_add_seen [simp]: "set (add_seen seen p) = insert p (set seen)"
  by (auto simp: add_seen_def)

lemma set_foldl_add_seen [simp]: "set (foldl add_seen seen ps) = set seen \<union> set ps"
  by (induction ps arbitrary: seen) auto

lemma set_List_sweep:
  "set (List_sweep paths dirs seen) =
     set seen \<union> {Join [BaseDir paths, name] | name.
                    (name, True) \<in> set dirs \<and> HasPrefix name (Prefix paths)}"
  by (induction paths dirs seen rule: List_sweep.induct) auto

lemma List_entry_path [simp]: "TargetPath (EntryTarget (List_entry m w byPath p)) = p"
  by (simp add: List_entry_def)

lemma List_entry_missing:
  "(Status (List_entry m w byPath p) = WorktreeStatusMissing) = (byPath p = None)"
  by (simp add: List_entry_def split: option.splits)

lemma List_entry_branch_None:
  "byPath p = None \<Longrightarrow> TargetBranch (EntryTarget (List_entry m w byPath p)) = swept_branch m w p"
  by (simp add: List_entry_def swept_branch_def)

text \<open>Every entry of a successful \<open>List\<close> is built by \<open>List_entry\<close> from the rows of the
  enumerator and a path that is a row's path or was found by the sweep.\<close>

lemma List_entries:
  assumes "List m w = Inr out" and "e \<in> set out"
  obtains rows paths where
    "enumerate m w = Inr rows"
    "ResolvePaths w (cfg m) = Inr paths"
    "e = List_entry m w (index_byPath rows Map.empty) (TargetPath (EntryTarget e))"
    "TargetPath (EntryTarget e) \<in> Path ` set rows \<or>
     (\<exists>dirs name. ReadDir w (BaseDir paths) = Inr dirs \<and> (name, True) \<in> set dirs \<and>
        HasPrefix name (Prefix paths) \<and> TargetPath (EntryTarget e) = Join [BaseDir paths, name])"
proof -
  from assms(1) obtain rows where rows: "enumerate m w = Inr rows"
    by (cases "enumerate m w") (auto simp: List_def enumerate_def)
  from assms(1) rows obtain paths where paths: "ResolvePaths w (cfg m) = Inr paths"
    by (cases "ResolvePaths w (cfg m)") (auto simp: List_def enumerate_def)
  define seen0 where "seen0 = foldl add_seen [] (map Path rows)"
  define seen where "seen = (case ReadDir w (BaseDir paths) of
      Inr dirs \<Rightarrow> List_sweep paths dirs seen0 | Inl err \<Rightarrow> seen0)"
  have out: "out = sort_Slice List_less (map (List_entry m w (index_byPath rows Map.empty)) seen)"
    using assms(1) rows paths
    by (auto simp: List_def enumerate_def Let_def seen_def seen0_def split: sum.splits if_splits)
  from assms(2) obtain p where p: "p \<in> set seen"
    and e: "e = List_entry m w (index_byPath rows Map.empty) p"
    unfolding out by auto
  have "p \<in> Path ` set rows \<or>
     (\<exists>dirs name. ReadDir w (BaseDir paths) = Inr dirs \<and> (name, True) \<in> set dirs \<and>
        HasPrefix name (Prefix paths) \<and> p = Join [BaseDir paths, name])"
    using p unfolding seen_def seen0_def
    by (cases "ReadDir w (BaseDir paths)") (auto simp: set_List_sweep)
  with rows paths e that show thesis by simp
qed

text \<open>
  Claim C1, as the code has it. For every entry that \<open>List\<close> returns, the status is
  \<open>missing\<close> if and only if the enumerator has no metadata row for the entry's path. Such
  an entry comes from the sweep of the base directory: it is a directory there whose name
  starts with the prefix, so it was on disk when \<open>List\<close> read the base directory.
\<close>

theorem List_missing_iff_no_row:
  assumes "List m w = Inr out" and "e \<in> set out"
  shows "\<exists>rows paths.
           enumerate m w = Inr rows \<and> ResolvePaths w (cfg m) = Inr paths \<and>
           ((Status e = WorktreeStatusMissing) = (TargetPath (EntryTarget e) \<notin> Path ` set rows)) \<and>
           (Status e = WorktreeStatusMissing \<longrightarrow>
              (\<exists>dirs name. ReadDir w (BaseDir paths) = Inr dirs \<and> (name, True) \<in> set dirs \<and>
                 HasPrefix name (Prefix paths) \<and>
                 TargetPath (EntryTarget e) = Join [BaseDir paths, name]))"
proof -
  from assms obtain rows paths where
    rows: "enumerate m w = Inr rows" and paths: "ResolvePaths w (cfg m) = Inr paths" and
    e: "e = List_entry m w (index_byPath rows Map.empty) (TargetPath (EntryTarget e))" and
    src: "TargetPath (EntryTarget e) \<in> Path ` set rows \<or>
     (\<exists>dirs name. ReadDir w (BaseDir paths) = Inr dirs \<and> (name, True) \<in> set dirs \<and>
        HasPrefix name (Prefix paths) \<and> TargetPath (EntryTarget e) = Join [BaseDir paths, name])"
    by (rule List_entries)
  have iff: "(Status e = WorktreeStatusMissing) = (TargetPath (EntryTarget e) \<notin> Path ` set rows)"
    by (subst e) (simp add: List_entry_missing index_byPath_None)
  from rows paths iff src show ?thesis by blast
qed

text \<open>
  Claim C4, as the code has it. Every entry of \<open>List\<close> for which the enumerator has no
  metadata row has status \<open>missing\<close>; its branch is the branch \<open>git\<close> reports in that
  directory, and \<open>(detached)\<close> when \<open>git\<close> fails there or reports no branch.
\<close>

theorem List_swept_entry:
  assumes "List m w = Inr out" and "e \<in> set out"
    and "enumerate m w = Inr rows"
    and "TargetPath (EntryTarget e) \<notin> Path ` set rows"
  shows "Status e = WorktreeStatusMissing \<and>
         TargetBranch (EntryTarget e) = swept_branch m w (TargetPath (EntryTarget e))"
proof -
  from assms(1,2) obtain rows' paths where
    rows: "enumerate m w = Inr rows'" and
    e: "e = List_entry m w (index_byPath rows' Map.empty) (TargetPath (EntryTarget e))"
    by (rule List_entries)
  from rows assms(3) have "rows' = rows" by simp
  with assms(4) have none: "index_byPath rows' Map.empty (TargetPath (EntryTarget e)) = None"
    by (simp add: index_byPath_None)
  show ?thesis
    by (subst e, subst (2) e) (simp add: List_entry_missing List_entry_branch_None none)
qed

text \<open>
  Claim C10. \<open>ResolveTarget\<close> with the empty identifier fails with an error that wraps
  \<open>ErrTargetNotFound\<close>, whatever the repository and the world are: nothing is read before
  the identifier is tested.
\<close>

theorem ResolveTarget_empty:
  "ResolveTarget m w [] = Inl (Wrapped ''empty identifier'' ErrTargetNotFound) \<and>
   errors_Is (Wrapped ''empty identifier'' ErrTargetNotFound) ErrTargetNotFound"
  by (simp add: ResolveTarget_def)

text \<open>
  Claim C2, as the code has it. Let the identifier be its own sanitized form, not empty, not
  \<open>1\<close> and not the branch of a main repository that is on a branch. When the enumerator and
  the path resolution succeed and a worktree exists at the base directory joined with prefix
  and identifier, \<open>ResolveTarget\<close> succeeds and returns that path, as a linked worktree.
\<close>

theorem ResolveTarget_worktree_path:
  assumes "identifier = SanitizeBranchName identifier"
    and "identifier \<noteq> []" and "identifier \<noteq> ''1''"
    and "enumerate m w = Inr rows"
    and "ResolveTarget_mainEntry m w (index_byPath rows Map.empty) = Inr mainEntry"
    and "\<not> (Branch mainEntry \<noteq> DetachedBranch \<and> identifier = Branch mainEntry)"
    and "ResolvePaths w (cfg m) = Inr paths"
    and "worktree_at m w rows (Join [BaseDir paths, Prefix paths @ identifier])"
  shows "\<exists>t. ResolveTarget m w identifier = Inr t \<and> \<not> IsMain t \<and>
             TargetPath t = Join [BaseDir paths, Prefix paths @ identifier]"
proof -
  define candidate where "candidate = Join [BaseDir paths, Prefix paths @ identifier]"
  have cand: "Join [BaseDir paths, Prefix paths @ SanitizeBranchName identifier] = candidate"
    using assms(1) by (simp add: candidate_def)
  define byPath where "byPath = index_byPath rows Map.empty"
  have R: "ResolveTarget m w identifier =
      (case byPath candidate of
         Some e \<Rightarrow> Inr \<lparr>IsMain = False, TargetPath = Path e, TargetBranch = Branch e\<rparr>
       | None \<Rightarrow>
           (case Stat w candidate of
              Inr info \<Rightarrow>
                (case currentBranch m w candidate of
                   Inl err \<Rightarrow> Inl err
                 | Inr branch \<Rightarrow>
                     Inr \<lparr>IsMain = False, TargetPath = candidate, TargetBranch = branch\<rparr>)
            | Inl err \<Rightarrow> ResolveTarget_byBranch (RepoMainRoot (repoCtx m)) identifier rows))"
    using assms(2-7)
    by (auto simp add: ResolveTarget_def enumerate_def Let_def cand byPath_def)
  show ?thesis
  proof (cases "byPath candidate")
    case (Some e)
    then have "Path e = candidate" unfolding byPath_def by (rule index_byPath_Path)
    with Some R show ?thesis by (simp add: candidate_def)
  next
    case None
    then have "candidate \<notin> Path ` set rows"
      by (simp add: byPath_def index_byPath_None)
    with assms(8) obtain info b where "Stat w candidate = Inr info"
      "currentBranch m w candidate = Inr b"
      by (auto simp: worktree_at_def candidate_def [symmetric] split: sum.splits)
    with None R show ?thesis by (simp add: candidate_def)
  qed
qed

subsection \<open>The operations in the concrete worlds\<close>

lemma linked_enumerate: "enumerate repo_manager linked_world = Inr linked_rows"
  by code_simp

lemma linked_ResolvePaths:
  "ResolvePaths linked_world (cfg repo_manager) = Inr \<lparr>BaseDir = ''/r-worktrees'', Prefix = []\<rparr>"
  by code_simp

lemma linked_List: "List repo_manager linked_world = Inr linked_entries"
  by code_simp

lemma inside_enumerate: "enumerate repo_manager inside_world = Inr inside_rows"
  by code_simp

lemma inside_List: "List repo_manager inside_world = Inr inside_entries"
  by code_simp

theorem List_missing_iff_no_row_witness:
  "List repo_manager linked_world = Inr linked_entries \<and>
   orphan_entry \<in> set linked_entries \<and>
   enumerate repo_manager linked_world = Inr linked_rows \<and>
   Status orphan_entry = WorktreeStatusMissing \<and>
   TargetPath (EntryTarget orphan_entry) \<notin> Path ` set linked_rows"
proof -
  have mem: "orphan_entry \<in> set linked_entries" by (simp add: linked_entries_def)
  from List_missing_iff_no_row [OF linked_List mem] linked_enumerate
  have "(Status orphan_entry = WorktreeStatusMissing)
          = (TargetPath (EntryTarget orphan_entry) \<notin> Path ` set linked_rows)"
    by auto
  moreover have "Status orphan_entry = WorktreeStatusMissing" by (simp add: orphan_entry_def)
  ultimately show ?thesis using linked_List mem linked_enumerate by simp
qed

text \<open>
  Claim C1 as stated fails: the entry of \<open>/r-worktrees/orphan\<close> has status
  \<open>missing\<close> and no metadata row, and its directory exists on disk.
\<close>

theorem List_missing_counterexample:
  "List repo_manager linked_world = Inr linked_entries \<and>
   orphan_entry \<in> set linked_entries \<and>
   Status orphan_entry = WorktreeStatusMissing \<and>
   TargetPath (EntryTarget orphan_entry) = ''/r-worktrees/orphan'' \<and>
   Stat linked_world ''/r-worktrees/orphan'' = Inr True"
proof -
  have "Stat linked_world ''/r-worktrees/orphan'' = Inr True" by code_simp
  then show ?thesis using linked_List
    by (simp add: linked_entries_def orphan_entry_def)
qed

theorem List_swept_entry_witness:
  "orphan_entry \<in> set linked_entries \<and>
   TargetPath (EntryTarget orphan_entry) \<notin> Path ` set linked_rows \<and>
   Status orphan_entry = WorktreeStatusMissing \<and>
   TargetBranch (EntryTarget orphan_entry)
     = swept_branch repo_manager linked_world (TargetPath (EntryTarget orphan_entry)) \<and>
   swept_branch repo_manager linked_world ''/r-worktrees/orphan'' = DetachedBranch"
proof -
  have mem: "orphan_entry \<in> set linked_entries" by (simp add: linked_entries_def)
  have norow: "TargetPath (EntryTarget orphan_entry) \<notin> Path ` set linked_rows"
    by (simp add: orphan_entry_def linked_rows_def)
  have "swept_branch repo_manager linked_world ''/r-worktrees/orphan'' = DetachedBranch"
    by code_simp
  then show ?thesis
    using mem norow List_swept_entry [OF linked_List mem linked_enumerate norow] by simp
qed

text \<open>
  Claim C4 as stated fails: with the base directory inside the main working tree, the
  directory \<open>/r/.worktrees/tmp\<close> has no metadata row and is listed as \<open>missing\<close> with the
  branch \<open>main\<close> that \<open>git\<close> reports there, not with \<open>(detached)\<close>.
\<close>

theorem List_swept_branch_counterexample:
  "List repo_manager inside_world = Inr inside_entries \<and>
   enumerate repo_manager inside_world = Inr inside_rows \<and>
   tmp_entry \<in> set inside_entries \<and>
   TargetPath (EntryTarget tmp_entry) \<notin> Path ` set inside_rows \<and>
   Status tmp_entry = WorktreeStatusMissing \<and>
   TargetBranch (EntryTarget tmp_entry) = ''main'' \<and>
   ''main'' \<noteq> DetachedBranch"
  using inside_List inside_enumerate
  by (simp add: inside_entries_def tmp_entry_def inside_rows_def DetachedBranch_def)

theorem ResolveTarget_empty_witness:
  "ResolveTarget repo_manager linked_world []
     = Inl (Wrapped ''empty identifier'' ErrTargetNotFound)"
  using ResolveTarget_empty [of repo_manager linked_world] by simp

theorem ResolveTarget_worktree_path_witness:
  "ResolveTarget repo_manager linked_world ''foo''
     = Inr \<lparr>IsMain = False, TargetPath = ''/r-worktrees/foo'', TargetBranch = ''foo''\<rparr> \<and>
   Join [''/r-worktrees'', [] @ ''foo''] = ''/r-worktrees/foo''"
proof -
  have h1: "''foo'' = SanitizeBranchName ''foo''" by code_simp
  have h5: "ResolveTarget_mainEntry repo_manager linked_world (index_byPath linked_rows Map.empty)
      = Inr \<lparr>Path = ''/r'', Branch = ''main'', Detached = False, Locked = False,
              Prunable = False\<rparr>"
    by code_simp
  have h8: "worktree_at repo_manager linked_world linked_rows
      (Join [BaseDir \<lparr>BaseDir = ''/r-worktrees'', Prefix = []\<rparr>,
             Prefix \<lparr>BaseDir = ''/r-worktrees'', Prefix = []\<rparr> @ ''foo''])"
    by code_simp
  have j: "Join [''/r-worktrees'', [] @ ''foo''] = ''/r-worktrees/foo''" by code_simp
  have r: "ResolveTarget repo_manager linked_world ''foo''
     = Inr \<lparr>IsMain = False, TargetPath = ''/r-worktrees/foo'', TargetBranch = ''foo''\<rparr>"
    by code_simp
  from ResolveTarget_worktree_path [OF h1 _ _ linked_enumerate h5 _ linked_ResolvePaths h8]
  show ?thesis using r j by (simp add: DetachedBranch_def)
qed

text \<open>
  Claim C2 as stated fails: \<open>1\<close> is its own sanitized form and a worktree for the branch
  \<open>1\<close> exists at the computed path \<open>/r-worktrees/1\<close>, but \<open>ResolveTarget\<close> returns the main
  repository, because the identifier \<open>1\<close> is tested first.
\<close>

theorem ResolveTarget_one_counterexample:
  "''1'' = SanitizeBranchName ''1'' \<and>
   enumerate repo_manager linked_world = Inr linked_rows \<and>
   ResolvePaths linked_world (cfg repo_manager)
     = Inr \<lparr>BaseDir = ''/r-worktrees'', Prefix = []\<rparr> \<and>
   Join [''/r-worktrees'', [] @ ''1''] = ''/r-worktrees/1'' \<and>
   worktree_at repo_manager linked_world linked_rows ''/r-worktrees/1'' \<and>
   ResolveTarget repo_manager linked_world ''1''
     = Inr \<lparr>IsMain = True, TargetPath = ''/r'', TargetBranch = ''main''\<rparr>"
proof -
  have "''1'' = SanitizeBranchName ''1''" by code_simp
  moreover have "Join [''/r-worktrees'', [] @ ''1''] = ''/r-worktrees/1''" by code_simp
  moreover have "worktree_at repo_manager linked_world linked_rows ''/r-worktrees/1''"
    by code_simp
  moreover have "ResolveTarget repo_manager linked_world ''1''
     = Inr \<lparr>IsMain = True, TargetPath = ''/r'', TargetBranch = ''main''\<rparr>"
    by code_simp
  ultimately show ?thesis using linked_enumerate linked_ResolvePaths by simp
qed



section \<open>The lock discipline of the Manager\<close>

lemma lock_free_Nil [simp]: "lock_free []"
  by (simp add: lock_free_def)

lemma lock_free_append [simp]: "lock_free (a @ b) = (lock_free a \<and> lock_free b)"
  by (simp add: lock_free_def)

lemma lock_free_single [simp]: "lock_free [e] = (\<not> lock_event e)"
  by (simp add: lock_free_def)

lemma continues_refl [simp]: "continues h h"
  by (simp add: continues_def)

lemma continues_trans: "continues a b \<Longrightarrow> continues b c \<Longrightarrow> continues a c"
  by (auto simp: continues_def)

lemma continues_snoc [simp]: "continues h (h @ [e]) = (\<not> lock_event e)"
  by (auto simp: continues_def)

lemma perform_eq: "(perform E e h = (r, h')) = (r = outcome E h e \<and> h' = h @ [e])"
  by (auto simp: perform_def)

lemma continues_perform:
  "perform E e h = (r, h') \<Longrightarrow> \<not> lock_event e \<Longrightarrow> continues h h'"
  by (simp add: perform_eq)

lemma under_lockI:
  "lock_free body \<Longrightarrow> under_lock p (LockAcquired p # body @ [LockReleased p])"
  by (simp add: under_lock_def butlast_append)

lemma locked_section:
  assumes "continues (h @ [LockAcquired p]) h'"
  shows "\<exists>tr. h' @ [LockReleased p] = h @ tr \<and> under_lock p tr"
proof -
  from assms obtain body where "h' = (h @ [LockAcquired p]) @ body" "lock_free body"
    by (auto simp: continues_def)
  then have "h' @ [LockReleased p] = h @ (LockAcquired p # body @ [LockReleased p])"
    "under_lock p (LockAcquired p # body @ [LockReleased p])"
    by (simp_all add: under_lockI)
  then show ?thesis by blast
qed

lemma runHooks_continues:
  "runHooks E pkg m phase dir envPairs h = (r, h') \<Longrightarrow> continues h h'"
  by (auto simp: runHooks_def perform_eq split: sum.splits if_splits)

lemma Remove_branch_continues:
  "Remove_branch E m opts target h = (r, h') \<Longrightarrow> continues h h'"
  by (auto simp: Remove_branch_def Let_def perform_eq split: sum.splits if_splits)

lemma continues_after:
  "\<not> lock_event e \<Longrightarrow> continues (h @ [e]) h' \<Longrightarrow> continues h h'"
  using continues_trans [of h "h @ [e]" h'] by simp

lemma continues_after_git:
  "continues (h @ [GitCommand dir args]) h' \<Longrightarrow> continues h h'"
  by (rule continues_after) simp_all

lemma Remove_one_continues:
  assumes "Remove_one E m opts ident h = (r, h')"
  shows "continues h h'"
  using assms unfolding Remove_one_def perform_def Let_def
  by (auto split: sum.splits option.splits if_splits prod.splits
      dest!: Remove_branch_continues runHooks_continues continues_after_git)
     (blast intro: continues_trans)+

lemma Remove_loop_continues:
  "Remove_loop E m opts ids errs h = (errs', h') \<Longrightarrow> continues h h'"
proof (induction ids arbitrary: errs h)
  case Nil
  then show ?case by simp
next
  case (Cons ident ids)
  obtain r h1 where one: "Remove_one E m opts ident h = (r, h1)"
    by (cases "Remove_one E m opts ident h") auto
  then have c1: "continues h h1" by (rule Remove_one_continues)
  from Cons.prems one obtain errs1 where "Remove_loop E m opts ids errs1 h1 = (errs', h')"
    by (cases r) auto
  then have "continues h1 h'" by (rule Cons.IH)
  with c1 show ?case by (rule continues_trans)
qed

lemma Remove_discipline:
  "\<exists>tr. snd (Remove E m identifiers opts h) = h @ tr \<and>
        under_lock (Join [CommonDir (repoCtx m), ''gtr.lock'']) tr"
proof -
  define p where "p = Join [CommonDir (repoCtx m), ''gtr.lock'']"
  have empty: "h = h @ [] \<and> under_lock p []" by (simp add: under_lock_def)
  show ?thesis
  proof (cases "length identifiers = 0 \<or> (\<exists>err. Acquire (locks E h) (caller_ctx E) p 30000 = Inl err)")
    case True
    then have "snd (Remove E m identifiers opts h) = h"
      by (auto simp: Remove_def Let_def p_def)
    with empty show ?thesis unfolding p_def by metis
  next
    case False
    then obtain l where l: "Acquire (locks E h) (caller_ctx E) p 30000 = Inr l"
      by (cases "Acquire (locks E h) (caller_ctx E) p 30000") auto
    obtain errs h' where loop: "Remove_loop E m opts identifiers [] (h @ [LockAcquired p]) = (errs, h')"
      by (cases "Remove_loop E m opts identifiers [] (h @ [LockAcquired p])") auto
    then have "continues (h @ [LockAcquired p]) h'" by (rule Remove_loop_continues)
    from locked_section [OF this]
    have "\<exists>tr. h' @ [LockReleased p] = h @ tr \<and> under_lock p tr" .
    moreover have "snd (Remove E m identifiers opts h) = h' @ [LockReleased p]"
      using False l loop by (simp add: Remove_def Let_def p_def [symmetric])
    ultimately show ?thesis unfolding p_def by simp
  qed
qed

lemma continues_after_remove:
  "continues (h @ [RemoveDir p]) h' \<Longrightarrow> continues h h'"
  by (rule continues_after) simp_all

lemma Clean_loop_continues:
  "Clean_loop E baseDir es removed h = (r, h') \<Longrightarrow> continues h h'"
proof (induction es arbitrary: removed h)
  case Nil
  then show ?case by simp
next
  case (Cons a es)
  obtain name isDir where a: "a = (name, isDir)" by (cases a) auto
  have IH: "\<And>removed1 h1. Clean_loop E baseDir es removed1 h1 = (r, h') \<Longrightarrow> continues h1 h'"
    by (rule Cons.IH)
  show ?case
    using Cons.prems unfolding a
    by (auto simp: perform_def Let_def split: sum.splits option.splits if_splits
        dest!: IH continues_after_remove)
qed

lemma Clean_locked_continues:
  assumes "Clean_locked E m h = (r, h')"
  shows "continues h h'"
proof -
  obtain r1 h1 where p1:
    "perform E (GitCommand (RepoMainRoot (repoCtx m)) [''worktree'', ''prune'']) h = (r1, h1)"
    by (cases "perform E (GitCommand (RepoMainRoot (repoCtx m)) [''worktree'', ''prune'']) h") auto
  then have c1: "continues h h1" by (simp add: perform_eq)
  have "continues h1 h'"
    using assms p1
    by (auto simp: Clean_locked_def split: sum.splits if_splits prod.splits
        dest: Clean_loop_continues)
  with c1 show ?thesis by (rule continues_trans)
qed

lemma Clean_discipline:
  "\<exists>tr. snd (Manager_Clean E m h) = h @ tr \<and>
        under_lock (Join [CommonDir (repoCtx m), ''wr.lock'']) tr"
proof -
  define p where "p = Join [CommonDir (repoCtx m), ''wr.lock'']"
  show ?thesis
  proof (cases "Acquire (locks E h) (caller_ctx E) p 30000")
    case (Inl err)
    then have "snd (Manager_Clean E m h) = h @ []" "under_lock p []"
      by (simp_all add: Manager_Clean_def Let_def p_def under_lock_def)
    then show ?thesis unfolding p_def by blast
  next
    case (Inr l)
    obtain r h' where body: "Clean_locked E m (h @ [LockAcquired p]) = (r, h')"
      by (cases "Clean_locked E m (h @ [LockAcquired p])") auto
    then have "continues (h @ [LockAcquired p]) h'" by (rule Clean_locked_continues)
    from locked_section [OF this]
    have "\<exists>tr. h' @ [LockReleased p] = h @ tr \<and> under_lock p tr" .
    moreover have "snd (Manager_Clean E m h) = h' @ [LockReleased p]"
      using Inr body by (simp add: Manager_Clean_def Let_def p_def [symmetric])
    ultimately show ?thesis unfolding p_def by simp
  qed
qed

lemma continues_after_event:
  "continues (h @ [e]) h' \<Longrightarrow> \<not> lock_event e \<Longrightarrow> continues h h'"
  by (rule continues_after)

lemma continues_then:
  "continues h x \<Longrightarrow> \<not> lock_event e \<Longrightarrow> continues h (x @ [e])"
  using continues_trans [of h x "x @ [e]"] by simp

lemma gitWorktreeAdd_continues:
  "gitWorktreeAdd E m forceFlag path branch h = (r, h') \<Longrightarrow> continues h h'"
  by (simp add: gitWorktreeAdd_def perform_eq)

lemma gitWorktreeAddNewBranch_continues:
  "gitWorktreeAddNewBranch E m forceFlag path branch fromRef h = (r, h') \<Longrightarrow> continues h h'"
  by (simp add: gitWorktreeAddNewBranch_def perform_eq)

lemma CreateWorktree_add_continues:
  assumes "CreateWorktree_add E m trackMode forceFlag worktreePath branch fromRef remoteExists
       localExists h = (r, h')"
  shows "continues h h'"
  using assms unfolding CreateWorktree_add_def perform_def
  by (auto split: if_splits prod.splits option.splits
      dest!: gitWorktreeAdd_continues gitWorktreeAddNewBranch_continues continues_after_git)
     (blast intro: continues_trans)+

lemma CopyFiles_effect_continues:
  "CopyFiles_effect E src dst includes excludes opts h = (r, h') \<Longrightarrow> continues h h'"
  by (auto simp: CopyFiles_effect_def)

lemma copyIntoWorktree_continues:
  assumes "copyIntoWorktree E m worktreePath h = (r, h')"
  shows "continues h h'"
  using assms unfolding copyIntoWorktree_def Let_def
  by (auto simp: perform_eq split: sum.splits if_splits prod.splits option.splits
      dest!: CopyFiles_effect_continues)
     (auto intro: continues_then)


lemma CreateWorktree_locked_continues:
  assumes "CreateWorktree_locked E m branch opts trackMode worktreePath h = (r, h')"
  shows "continues h h'"
proof -
  define h1 where "h1 = (if \<not> NoFetch opts
                then snd (perform E (GitCommand (RepoMainRoot (repoCtx m)) [''fetch'', ''origin'']) h)
                else h)"
  have c1: "continues h h1" by (simp add: h1_def perform_def)
  have "continues h1 h'"
    using assms unfolding CreateWorktree_locked_def Let_def h1_def [symmetric]
    by (auto split: sum.splits if_splits prod.splits option.splits
        dest!: CreateWorktree_add_continues copyIntoWorktree_continues runHooks_continues)
       (blast intro: continues_trans)+
  with c1 show ?thesis by (rule continues_trans)
qed

lemma CreateWorktree_discipline:
  "\<exists>tr. snd (CreateWorktree E m branch opts h) = h @ tr \<and>
        mkdir_then_under_lock (Join [CommonDir (repoCtx m), ''wr.lock'']) tr"
proof -
  define p where "p = Join [CommonDir (repoCtx m), ''wr.lock'']"
  have none: "mkdir_then_under_lock p []" by (simp add: mkdir_then_under_lock_def)
  have only_mkdir: "mkdir_then_under_lock p [MkdirAll b]" for b
    by (simp add: mkdir_then_under_lock_def under_lock_def)
  have locked: "\<exists>tr. h2 @ [LockReleased p] = h @ tr \<and> mkdir_then_under_lock p tr"
    if "continues (h @ [MkdirAll b] @ [LockAcquired p]) h2" for h2 b
  proof -
    from that have "continues ((h @ [MkdirAll b]) @ [LockAcquired p]) h2" by simp
    from locked_section [OF this] obtain tr where
      "h2 @ [LockReleased p] = (h @ [MkdirAll b]) @ tr" "under_lock p tr" by blast
    then have "h2 @ [LockReleased p] = h @ (MkdirAll b # tr)"
      "mkdir_then_under_lock p (MkdirAll b # tr)"
      by (simp_all add: mkdir_then_under_lock_def)
    then show ?thesis by blast
  qed
  have "snd (CreateWorktree E m branch opts h) = h \<or>
        (\<exists>b. snd (CreateWorktree E m branch opts h) = h @ [MkdirAll b]) \<or>
        (\<exists>b h2. snd (CreateWorktree E m branch opts h) = h2 @ [LockReleased p] \<and>
            continues (h @ [MkdirAll b] @ [LockAcquired p]) h2)"
    unfolding CreateWorktree_def Let_def p_def [symmetric]
    by (auto simp: perform_def split: sum.splits if_splits prod.splits option.splits
        dest!: CreateWorktree_locked_continues)
  then show ?thesis
  proof (elim disjE exE conjE)
    assume "snd (CreateWorktree E m branch opts h) = h"
    with none show ?thesis unfolding p_def by auto
  next
    fix b assume "snd (CreateWorktree E m branch opts h) = h @ [MkdirAll b]"
    with only_mkdir [of b] show ?thesis unfolding p_def by auto
  next
    fix b h2 assume "snd (CreateWorktree E m branch opts h) = h2 @ [LockReleased p]"
      "continues (h @ [MkdirAll b] @ [LockAcquired p]) h2"
    with locked [of b h2] show ?thesis unfolding p_def by auto
  qed
qed

lemma Copy_loop_continues:
  "Copy_loop E src includes excludes copts dsts results h = (r, h') \<Longrightarrow> continues h h'"
proof (induction dsts arbitrary: results h)
  case Nil
  then show ?case by simp
next
  case (Cons dst dsts)
  have IH: "\<And>results1 h1. Copy_loop E src includes excludes copts dsts results1 h1 = (r, h')
      \<Longrightarrow> continues h1 h'"
    by (rule Cons.IH)
  show ?case
    using Cons.prems
    by (auto simp: CopyFiles_effect_def split: sum.splits dest!: IH)
       (auto dest: continues_after_event)
qed

lemma Copy_continues:
  "continues h (snd (Copy E m targets opts h))"
proof -
  obtain r h' where c: "Copy E m targets opts h = (r, h')"
    by (cases "Copy E m targets opts h") auto
  then have "continues h h'"
    unfolding Copy_def Let_def
    by (auto split: sum.splits if_splits dest!: Copy_loop_continues)
  with c show ?thesis by simp
qed

lemma Run_continues: "continues h (snd (Run E m identifier argv opts h))"
  by (auto simp: Run_def Let_def split: sum.splits proc.splits)

lemma adapters_Exec_continues: "continues h (snd (adapters_Exec E spec h))"
  by (auto simp: adapters_Exec_def Let_def continues_def lock_free_def split: proc.splits)

lemma OpenEditor_continues: "continues h (snd (OpenEditor E m identifier editorOverride h))"
  using adapters_Exec_continues
  by (auto simp: OpenEditor_def perform_def split: sum.splits option.splits)

lemma RunAI_continues: "continues h (snd (RunAI E m identifier toolOverride args h))"
  using adapters_Exec_continues
  by (auto simp: RunAI_def split: sum.splits)

lemma reading_continues: "snd (reading E f h) = h"
  by (simp add: reading_def)

text \<open>
  Claim C3, as the code has it. \<open>Remove\<close> and \<open>Clean\<close> do everything they do between taking
  and releasing the lock file in the common directory (\<open>gtr.lock\<close> and \<open>wr.lock\<close>, after the
  package of each). \<open>CreateWorktree\<close> creates the base directory first and then does
  everything else, every \<open>git\<close> command, copy and hook, under the lock \<open>wr.lock\<close>. \<open>Copy\<close>,
  with one destination or with many, and the read-only operations \<open>Run\<close>, \<open>OpenEditor\<close>,
  \<open>RunAI\<close>, \<open>List\<close> and \<open>ResolveTarget\<close> (which is also the command \<open>go\<close>) never take the
  lock. This holds for every environment, every history and all arguments.
\<close>

theorem Manager_lock_discipline:
  "(\<exists>tr. snd (CreateWorktree E m branch createOpts h) = h @ tr \<and>
         mkdir_then_under_lock (Join [CommonDir (repoCtx m), ''wr.lock'']) tr) \<and>
   (\<exists>tr. snd (Remove E m identifiers removeOpts h) = h @ tr \<and>
         under_lock (Join [CommonDir (repoCtx m), ''gtr.lock'']) tr) \<and>
   (\<exists>tr. snd (Manager_Clean E m h) = h @ tr \<and>
         under_lock (Join [CommonDir (repoCtx m), ''wr.lock'']) tr) \<and>
   continues h (snd (Copy E m targets copyOpts h)) \<and>
   continues h (snd (Run E m identifier argv runOpts h)) \<and>
   continues h (snd (OpenEditor E m identifier editorOverride h)) \<and>
   continues h (snd (RunAI E m identifier toolOverride args h)) \<and>
   snd (reading E (List m) h) = h \<and>
   snd (reading E (\<lambda>w. ResolveTarget m w identifier) h) = h"
  by (intro conjI CreateWorktree_discipline Remove_discipline Clean_discipline Copy_continues
      Run_continues OpenEditor_continues RunAI_continues reading_continues)

subsection \<open>The operations in a concrete environment\<close>

lemma quiet_Copy_all:
  "Copy quiet_env repo_manager [] copy_all_opts [] =
   (Inr [\<lparr>CopyTarget = \<lparr>IsMain = False, TargetPath = ''/r-worktrees/1'', TargetBranch = ''1''\<rparr>,
           CopyCopiedFiles = [''a.env'']\<rparr>,
         \<lparr>CopyTarget = \<lparr>IsMain = False, TargetPath = ''/r-worktrees/foo'',
                         TargetBranch = ''foo''\<rparr>,
           CopyCopiedFiles = [''a.env'']\<rparr>],
    copy_all_events)"
  by code_simp

lemma quiet_CreateWorktree_bar:
  "CreateWorktree quiet_env repo_manager ''bar'' create_opts [] =
   (Inr \<lparr>IsMain = False, TargetPath = ''/r-worktrees/bar'', TargetBranch = ''bar''\<rparr>,
    create_bar_events)"
  by code_simp

lemma quiet_Remove_foo:
  "Remove quiet_env repo_manager [''foo''] remove_opts [] = (None, remove_foo_events)"
  by code_simp

theorem Manager_lock_discipline_witness:
  "snd (Remove quiet_env repo_manager [''foo''] remove_opts []) = remove_foo_events \<and>
   under_lock ''/r/.git/gtr.lock'' remove_foo_events \<and>
   snd (CreateWorktree quiet_env repo_manager ''bar'' create_opts []) = create_bar_events \<and>
   mkdir_then_under_lock ''/r/.git/wr.lock'' create_bar_events \<and>
   snd (Copy quiet_env repo_manager [] copy_all_opts []) = copy_all_events \<and>
   continues [] copy_all_events"
proof -
  have p: "Join [CommonDir (repoCtx repo_manager), ''gtr.lock''] = ''/r/.git/gtr.lock''"
    "Join [CommonDir (repoCtx repo_manager), ''wr.lock''] = ''/r/.git/wr.lock''"
    by code_simp+
  show ?thesis
    using Manager_lock_discipline [of quiet_env repo_manager "''bar''" create_opts "[]"
        "[''foo'']" remove_opts "[]" copy_all_opts "''foo''" "[''true'']" "\<lparr>RunEnv = []\<rparr>"
        "[]" "[]" "[]"]
    by (simp add: quiet_Copy_all quiet_CreateWorktree_bar quiet_Remove_foo p)
qed

text \<open>
  Claim C3 as stated fails twice. \<open>Copy\<close> with two destinations copies the file \<open>a.env\<close>
  into both worktrees and never takes the lock; and the first effect of \<open>CreateWorktree\<close> is
  the creation of the base directory, before the lock is taken.
\<close>

theorem Manager_lock_counterexample:
  "Copy quiet_env repo_manager [] copy_all_opts [] =
   (Inr [\<lparr>CopyTarget = \<lparr>IsMain = False, TargetPath = ''/r-worktrees/1'', TargetBranch = ''1''\<rparr>,
           CopyCopiedFiles = [''a.env'']\<rparr>,
         \<lparr>CopyTarget = \<lparr>IsMain = False, TargetPath = ''/r-worktrees/foo'',
                         TargetBranch = ''foo''\<rparr>,
           CopyCopiedFiles = [''a.env'']\<rparr>],
    [CopyFilesCall ''/r'' ''/r-worktrees/1'' False,
     CopyFilesCall ''/r'' ''/r-worktrees/foo'' False]) \<and>
   mutates (CopyFilesCall ''/r'' ''/r-worktrees/1'' False) \<and>
   mutates (CopyFilesCall ''/r'' ''/r-worktrees/foo'' False) \<and>
   \<not> lock_event (CopyFilesCall ''/r'' ''/r-worktrees/1'' False) \<and>
   \<not> lock_event (CopyFilesCall ''/r'' ''/r-worktrees/foo'' False) \<and>
   snd (CreateWorktree quiet_env repo_manager ''bar'' create_opts []) =
     [MkdirAll ''/r-worktrees'',
      LockAcquired ''/r/.git/wr.lock'',
      GitCommand ''/r'' [''worktree'', ''add'', ''/r-worktrees/bar'', ''-b'', ''bar'', ''main''],
      LockReleased ''/r/.git/wr.lock''] \<and>
   mutates (MkdirAll ''/r-worktrees'')"
  using quiet_Copy_all quiet_CreateWorktree_bar
  by (simp add: copy_all_events_def create_bar_events_def)

end
